theory Spec2Isabelle
  imports Complex_Main "HOL-Library.Word" "HOL-Library.Sublist"
begin

section \<open>JavaScript strings\<close>

text \<open>
  A JavaScript string is a sequence of UTF-16 code units.  The keyword regexes of the chat
  system carry no \<open>u\<close> flag, so they inspect code units one by one; the Korean texts of the
  response tables are written as their code units.
\<close>

type_synonym jsstring = "16 word list"

definition js :: "string \<Rightarrow> jsstring" where
  "js s = map of_char s"

text \<open>
  \<open>String.prototype.toLowerCase\<close> is a builtin of the host that follows the Unicode case
  tables.  Every function that calls it takes it as its first argument \<open>lc\<close>, and every theorem
  holds for whatever the host computes.  On text whose letters are all Basic Latin the builtin
  is \<open>asciiLower\<close>, which concrete evaluations use.
\<close>

type_synonym lowering = "jsstring \<Rightarrow> jsstring"

definition asciiLower :: lowering where
  "asciiLower s = map (\<lambda>c. if 0x41 \<le> c \<and> c \<le> 0x5A then c + 0x20 else c) s"

text \<open>\<open>s.includes(sub)\<close> and \<open>s.startsWith(p)\<close>.\<close>

definition startsWith :: "jsstring \<Rightarrow> jsstring \<Rightarrow> bool" where
  "startsWith s p = (take (length p) s = p)"

fun includes_js :: "jsstring \<Rightarrow> jsstring \<Rightarrow> bool" where
  "includes_js [] sub = (sub = [])"
| "includes_js (c # cs) sub = (startsWith (c # cs) sub \<or> includes_js cs sub)"

text \<open>
  \<open>s.trim()\<close> removes white space and line terminators from both ends: TAB, LF, VT, FF, CR,
  SP, NBSP, U+1680, U+2000 to U+200A, U+2028, U+2029, U+202F, U+205F, U+3000 and U+FEFF.
\<close>

definition isWhiteSpace :: "16 word \<Rightarrow> bool" where
  "isWhiteSpace c =
     (c \<in> {0x09, 0x0A, 0x0B, 0x0C, 0x0D, 0x20, 0xA0, 0x1680, 0x2028, 0x2029, 0x202F, 0x205F,
            0x3000, 0xFEFF}
      \<or> (0x2000 \<le> c \<and> c \<le> 0x200A))"

definition trim :: "jsstring \<Rightarrow> jsstring" where
  "trim s = rev (dropWhile isWhiteSpace (rev (dropWhile isWhiteSpace s)))"

text \<open>
  A value that is a string, or \<open>undefined\<close> (what indexing an array out of range yields), or
  an object of the host that is not a string (a member inherited from \<open>Object.prototype\<close>).
\<close>

datatype jsval = Undefined | Str jsstring | HostObject

text \<open>
  \<open>obj[key]\<close> on an object literal used as a dictionary.  The literal inherits the members of
  \<open>Object.prototype\<close>, so a key that is not its own can still be found: the result is then a
  function or object of the host, truthy, and without any of the properties or methods that the
  program expects of its own values.
\<close>

definition inheritedKey :: "jsstring \<Rightarrow> bool" where
  "inheritedKey k =
     (k \<in> set [js ''constructor'', js ''hasOwnProperty'', js ''isPrototypeOf'',
               js ''propertyIsEnumerable'', js ''toLocaleString'', js ''toString'', js ''valueOf'',
               js ''__proto__'', js ''__defineGetter__'', js ''__defineSetter__'',
               js ''__lookupGetter__'', js ''__lookupSetter__''])"

datatype 'a lookup = Own 'a | Inherited | Absent

definition getProp :: "(jsstring \<rightharpoonup> 'a) \<Rightarrow> jsstring \<Rightarrow> 'a lookup" where
  "getProp obj k =
     (case obj k of
        Some v \<Rightarrow> Own v
      | None \<Rightarrow> if inheritedKey k then Inherited else Absent)"

text \<open>\<open>a || b\<close> on such lookups: only \<open>undefined\<close> is falsy.\<close>

definition orDefault :: "'a lookup \<Rightarrow> 'a lookup \<Rightarrow> 'a lookup" where
  "orDefault a b = (case a of Absent \<Rightarrow> b | Own v \<Rightarrow> Own v | Inherited \<Rightarrow> Inherited)"

datatype js_error = TypeError | LLMError

section \<open>The regular expressions of the classifier\<close>

text \<open>
  The classifier uses word boundaries, literal alternatives, sequencing and \<open>.*\<close>.
  \<open>ends r s i\<close> lists the positions at which a match of \<open>r\<close> that starts at position \<open>i\<close>
  of \<open>s\<close> can end; \<open>js_match r s\<close> is the truth value of \<open>s.match(r)\<close> for a regex without
  the \<open>g\<close> flag: some start position has a match.
\<close>

datatype regex =
    Lit jsstring
  | WordBoundary
  | AnyStar
  | Alt regex regex
  | Seq regex regex

definition isWordChar :: "16 word \<Rightarrow> bool" where
  "isWordChar c =
     ((0x41 \<le> c \<and> c \<le> 0x5A) \<or> (0x61 \<le> c \<and> c \<le> 0x7A) \<or> (0x30 \<le> c \<and> c \<le> 0x39) \<or> c = 0x5F)"

definition isLineTerminator :: "16 word \<Rightarrow> bool" where
  "isLineTerminator c = (c = 0x0A \<or> c = 0x0D \<or> c = 0x2028 \<or> c = 0x2029)"

definition wordCharAt :: "jsstring \<Rightarrow> int \<Rightarrow> bool" where
  "wordCharAt s e = (0 \<le> e \<and> e < int (length s) \<and> isWordChar (s ! nat e))"

fun ends :: "regex \<Rightarrow> jsstring \<Rightarrow> nat \<Rightarrow> nat list" where
  "ends (Lit w) s i = (if take (length w) (drop i s) = w then [i + length w] else [])"
| "ends WordBoundary s i = (if wordCharAt s (int i - 1) \<noteq> wordCharAt s (int i) then [i] else [])"
| "ends AnyStar s i =
     map (\<lambda>k. i + k) [0 ..< Suc (length (takeWhile (\<lambda>c. \<not> isLineTerminator c) (drop i s)))]"
| "ends (Alt a b) s i = ends a s i @ ends b s i"
| "ends (Seq a b) s i = concat (map (ends b s) (ends a s i))"

definition js_match :: "regex \<Rightarrow> jsstring \<Rightarrow> bool" where
  "js_match r s = list_ex (\<lambda>i. ends r s i \<noteq> []) [0 ..< Suc (length s)]"

fun alts :: "jsstring list \<Rightarrow> regex" where
  "alts [] = Lit []"
| "alts [w] = Lit w"
| "alts (w # ws) = Alt (Lit w) (alts ws)"

text \<open>\<open>/\b(w1|w2|...)\b/\<close>\<close>

definition wholeWord :: "jsstring list \<Rightarrow> regex" where
  "wholeWord ws = Seq WordBoundary (Seq (alts ws) WordBoundary)"

definition re_greeting :: regex where
  "re_greeting = wholeWord [js ''hi'', js ''hello'', js ''hey'', js ''greetings'', [0xC548, 0xB155]]"

text \<open>\<open>/\b(what|how|why|when|where|who|can you|do you|is it)\b.*\?/\<close>\<close>

definition re_question :: regex where
  "re_question =
     Seq (wholeWord [js ''what'', js ''how'', js ''why'', js ''when'', js ''where'', js ''who'',
                    js ''can you'', js ''do you'', js ''is it''])
         (Seq AnyStar (Lit (js ''?'')))"

definition re_name :: regex where
  "re_name = wholeWord [js ''name'', js ''who are you'', js ''introduce'', js ''call you'']"

definition re_hobby :: regex where
  "re_hobby = wholeWord [js ''hobby'', js ''hobbies'', js ''fun'', js ''free time'', js ''like to do'']"

definition re_feeling :: regex where
  "re_feeling = wholeWord [js ''how are you'', js ''feeling'', js ''mood'', js ''doing'']"

definition re_school :: regex where
  "re_school = wholeWord [js ''school'', js ''class'', js ''study'', js ''learn'', js ''exam'', js ''test'']"

definition re_art :: regex where
  "re_art = wholeWord [js ''draw'', js ''art'', js ''paint'', js ''sketch'']"

definition re_joke :: regex where
  "re_joke = wholeWord [js ''joke'', js ''funny'', js ''laugh'', js ''humor'']"

section \<open>The personality tables of \<open>generateSmartResponse\<close>\<close>

datatype category =
  Greeting | Question | Name | Hobby | Feeling | School | Study | Art | Joke | Default

record personality =
  style :: jsstring
  traits :: "jsstring list"
  responses :: "(category \<times> jsstring list) list"

definition minjun_personality :: personality where
  "minjun_personality = \<lparr>
     style = js ''formal and helpful'',
     traits = [js ''eager'', js ''responsible'', js ''polite''],
     responses = [
       (Greeting, [
          js ''Hello! How can I assist you, '' @ [0xC120, 0xC0DD, 0xB2D8] @ js ''?'',
          js ''Good to see you, teacher! What would you like to discuss?'']),
       (Question, [
          js ''That's a great question! Let me think... I believe the answer involves careful consideration of all factors.'',
          js ''I've actually studied this! The key point is to approach it systematically.'']),
       (Name, [
          js ''I'm Min-jun, '' @ [0xBBFC, 0xC900] @ js '' in Korean. I'm the class president this year!'',
          js ''My name is Min-jun! I try my best to help everyone in class.'']),
       (Hobby, [
          js ''I enjoy organizing study groups and helping classmates. I also like reading history books!'',
          js ''Besides studying, I volunteer at the school library. It's important to give back!'']),
       (Feeling, [
          js ''I'm doing well, thank you for asking! Ready to learn as always.'',
          js ''I feel motivated today! There's so much to accomplish.'']),
       (School, [
          js ''School is very important to me. Education opens many doors!'',
          js ''I love our school! The teachers here are wonderful.'']),
       (Default, [
          js ''Yes, '' @ [0xC120, 0xC0DD, 0xB2D8] @ js ''! I understand.'',
          js ''I'll do my best to help!'',
          js ''That's interesting! Tell me more.''])
     ]\<rparr>"

definition sooyeon_personality :: personality where
  "sooyeon_personality = \<lparr>
     style = js ''shy and artistic'',
     traits = [js ''quiet'', js ''creative'', js ''thoughtful''],
     responses = [
       (Greeting, [
          js ''Oh... hi... *looks down*'',
          js ''H-hello, teacher...'']),
       (Question, [
          js ''Um... I think... maybe... *pauses* ...I'm not entirely sure, but perhaps...'',
          js ''That's... that's a hard question... let me think...'']),
       (Name, [
          js ''I'm... Soo-yeon... '' @ [0xC218, 0xC5F0] @ js ''... *quietly*'',
          js ''My name is Soo-yeon. Most people don't notice me much...'']),
       (Hobby, [
          js ''I... I like to draw... *shows sketchbook nervously* ...would you like to see?'',
          js ''I spend most of my time drawing. It helps me express things I can't say...'']),
       (Feeling, [
          js ''I'm... okay, I guess... *looks out window*'',
          js ''A little tired today... I was up late drawing...'']),
       (Art, [
          js ''*eyes light up* Oh! You want to see my art? I... I drew the sky outside today...'',
          js ''Drawing is... it's like my voice, you know? When I can't speak, I draw.'']),
       (Default, [
          js ''...okay.'',
          js ''*nods quietly*'',
          js ''I see...'',
          js ''...maybe...''])
     ]\<rparr>"

definition jihoon_personality :: personality where
  "jihoon_personality = \<lparr>
     style = js ''funny and casual'',
     traits = [js ''humorous'', js ''friendly'', js ''energetic''],
     responses = [
       (Greeting, [
          js ''Yo, '' @ [0xC120, 0xC0DD, 0xB2D8] @ js ''! What's good?'',
          js ''Hey hey hey! Finally, someone fun to talk to!'']),
       (Question, [
          js ''Ooh, tough question! Let me put on my thinking cap... '' @ [0xD83E, 0xDD14] @ js '' Actually, I lost my thinking cap. Haha!'',
          js ''Hmm, let me consult my brain... it says 'error 404: answer not found'! Just kidding, I think...'']),
       (Name, [
          js ''The name's Ji-hoon! '' @ [0xC9C0, 0xD6C8] @ js ''! The one and only class entertainer!'',
          js ''I'm Ji-hoon! If you ever need a laugh, I'm your guy!'']),
       (Hobby, [
          js ''I'm basically a professional meme collector. Also, I play games and make everyone laugh!'',
          js ''Hobbies? Making people smile! Also sneaking snacks into class... don't tell anyone!'']),
       (Feeling, [
          js ''Living the dream, teach! Or at least dreaming about living, haha!'',
          js ''Feeling awesome! Every day is a chance for new jokes!'']),
       (Joke, [
          js ''Why did the student eat his homework? Because his teacher said it was a piece of cake! '' @ [0xD83C, 0xDF82],
          js ''What do you call a sleeping dinosaur? A dino-snore! Get it?'']),
       (Default, [
          js ''Ha! Nice one!'',
          js ''That's hilarious... wait, was that serious?'',
          js ''You got it, boss!'',
          js ''This class just got interesting!''])
     ]\<rparr>"

definition yuna_personality :: personality where
  "yuna_personality = \<lparr>
     style = js ''studious and precise'',
     traits = [js ''academic'', js ''competitive'', js ''focused''],
     responses = [
       (Greeting, [
          js ''Good day, teacher. I've prepared for today's lesson.'',
          js ''Hello. I hope we're covering something challenging today.'']),
       (Question, [
          js ''According to my research, the answer is... *checks notes* ...yes, I have it documented here.'',
          js ''I've actually written a summary on this topic. The key factors are...'']),
       (Name, [
          js ''I'm Yuna, '' @ [0xC720, 0xB098] @ js ''. Currently ranked second in our grade. I'm working on being first.'',
          js ''My name is Yuna. I take my studies very seriously.'']),
       (Hobby, [
          js ''Studying, mostly. But I also enjoy solving complex math problems for fun.'',
          js ''I participate in academic olympiads. Last month I won silver in mathematics.'']),
       (Feeling, [
          js ''Focused, as always. The '' @ [0xC218, 0xB2A5] @ js '' exam is approaching and every moment counts.'',
          js ''A bit stressed about upcoming exams, but that's normal.'']),
       (Study, [
          js ''I study at least 4 hours every day after school. Consistency is key.'',
          js ''My study method involves active recall and spaced repetition. Very efficient.'']),
       (Default, [
          js ''I should note this down.'',
          js ''Interesting. Back to studying.'',
          js ''That's useful information.'',
          js ''Noted. Now, about the assignment...''])
     ]\<rparr>"

definition personalities :: "(jsstring \<times> personality) list" where
  "personalities =
     [(js ''minjun'', minjun_personality),
      (js ''sooyeon'', sooyeon_personality),
      (js ''jihoon'', jihoon_personality),
      (js ''yuna'', yuna_personality)]"

text \<open>
  The chain of \<open>if\<close>/\<open>else if\<close> tests on the lower-cased message, in the order of the source.
\<close>

definition selectCategory :: "jsstring \<Rightarrow> jsstring \<Rightarrow> category" where
  "selectCategory lowerMsg npcId =
     (if js_match re_greeting lowerMsg then Greeting
      else if js_match re_question lowerMsg then Question
      else if js_match re_name lowerMsg then Name
      else if js_match re_hobby lowerMsg then Hobby
      else if js_match re_feeling lowerMsg then Feeling
      else if js_match re_school lowerMsg then (if npcId = js ''yuna'' then Study else School)
      else if js_match re_art lowerMsg \<and> npcId = js ''sooyeon'' then Art
      else if js_match re_joke lowerMsg \<and> npcId = js ''jihoon'' then Joke
      else Default)"

text \<open>\<open>a || b\<close> on values that are either an object (truthy) or \<open>undefined\<close>.\<close>

definition orElse :: "'a option \<Rightarrow> 'a option \<Rightarrow> 'a option" where
  "orElse a b = (case a of Some x \<Rightarrow> Some x | None \<Rightarrow> b)"

text \<open>\<open>personalities[npcId] || personalities['minjun']\<close>\<close>

definition lookupPersonality :: "jsstring \<Rightarrow> personality lookup" where
  "lookupPersonality npcId =
     orDefault (getProp (map_of personalities) npcId) (getProp (map_of personalities) (js ''minjun''))"

text \<open>\<open>npc.responses[category] || npc.responses['default']\<close>; an array is truthy even when empty.\<close>

definition lookupResponses :: "personality \<Rightarrow> category \<Rightarrow> jsstring list option" where
  "lookupResponses npc category =
     orElse (map_of (responses npc) category) (map_of (responses npc) Default)"

text \<open>
  \<open>xs[Math.floor(Math.random() * xs.length)]\<close>.  The product and its floor are computed by the
  host in double precision from the value that \<open>Math.random()\<close> draws from \<open>[0, 1)\<close>.  A draw
  is given by the index that it yields for each array length: \<open>d n\<close> is the value of
  \<open>Math.floor(Math.random() * n)\<close> in this call.  Reading an array outside its range yields
  \<open>undefined\<close>.
\<close>

type_synonym draw = "nat \<Rightarrow> nat"

definition pickAt :: "draw \<Rightarrow> jsstring list \<Rightarrow> jsval" where
  "pickAt d xs = (if d (length xs) < length xs then Str (xs ! d (length xs)) else Undefined)"

section \<open>The state of the chat system\<close>

record config =
  name :: jsstring
  nameKorean :: jsstring
  systemPrompt :: jsstring

datatype role = System | User | Assistant

record message =
  role :: role
  content :: jsval

datatype msg_type = TUser | TNpc | TSystem | TLoading

text \<open>An element of the message list of the page; \<open>elemId\<close> stands for the identity of the node.\<close>

record element =
  elemId :: nat
  className :: msg_type
  textContent :: jsval

record voice =
  v_name :: jsstring
  v_lang :: jsstring

record utterance =
  u_text :: jsval
  u_voice :: "voice option"
  u_rate :: rat
  u_pitch :: rat
  u_volume :: rat

text \<open>
  \<open>window.speechSynthesis\<close>: the voices the host offers, the utterances handed to it since the
  last \<open>cancel()\<close>, and the texts whose \<open>speak\<close> waits for a 100 ms retry timer.
\<close>

record synth =
  voices :: "voice list"
  utterances :: "utterance list"
  retries :: "jsval list"

text \<open>
  An \<open>npc-controller\<close> component, and the \<open>NPCManager\<close>.  Controllers are objects: the manager
  stores references to them, and \<open>controllers\<close> is the store that the references point into.
\<close>

record controller =
  isActive :: bool
  highlighted :: bool

type_synonym ref = nat

record manager =
  controllers :: "ref \<Rightarrow> controller"
  npcs :: "jsstring \<rightharpoonup> ref"
  activeNPC :: "jsstring option"

text \<open>
  The fields of \<open>AIChat\<close> together with \<open>window.npcManager\<close>.  A page element that
  \<open>getElementById\<close> did not find is \<open>None\<close>; \<open>chatUI\<close> holds whether the panel carries the
  class \<open>hidden\<close>, \<open>chatInput\<close> the value of the input field, \<open>currentNPCLabel\<close> its text.
  \<open>conversationHistory\<close> and \<open>npcs\<close> hold the own properties of the two dictionaries.
\<close>

record aichat =
  isLoaded :: bool
  engine :: bool
  isGenerating :: bool
  currentNPC :: "(jsstring \<times> config option) option"
  conversationHistory :: "jsstring \<rightharpoonup> message list"
  speechSynthesis :: "synth option"
  chatUI :: "bool option"
  chatMessages :: "element list option"
  nextElem :: nat
  chatInput :: "jsstring option"
  currentNPCLabel :: "jsstring option"
  npcManager :: "manager option"

section \<open>The NPC manager\<close>

definition setActive :: "bool \<Rightarrow> controller \<Rightarrow> controller" where
  "setActive active c = c\<lparr>isActive := active, highlighted := active\<rparr>"

text \<open>
  \<open>this.npcs[id] = controller\<close>.  An assignment to the key \<open>__proto__\<close> creates no own
  property: it replaces the prototype of the map, after which lookups find the members of the
  controller.  The model does not follow that; what is proved of sequences of calls excludes
  the registration of that key.
\<close>

definition registerNPC :: "jsstring \<Rightarrow> ref \<Rightarrow> manager \<Rightarrow> manager" where
  "registerNPC ident c m =
     (if ident = js ''__proto__'' then m else m\<lparr>npcs := (npcs m)(ident \<mapsto> c)\<rparr>)"

text \<open>
  \<open>id && this.npcs[id]\<close>: \<open>null\<close> and the empty string are falsy, and so is a key that the
  map does not have; an inherited key yields a truthy object that is not a controller.
\<close>

definition registered :: "manager \<Rightarrow> jsstring option \<Rightarrow> ref lookup" where
  "registered m ident =
     (case ident of None \<Rightarrow> Absent | Some i \<Rightarrow> if i = [] then Absent else getProp (npcs m) i)"

text \<open>
  Calling \<open>setActive\<close> on an inherited member throws: in the deactivation step before anything
  is changed, in the activation step after \<open>activeNPC\<close> has been stored.
\<close>

definition setActiveNPC :: "jsstring option \<Rightarrow> manager \<Rightarrow> js_error option \<times> manager" where
  "setActiveNPC ident m =
     (case registered m (activeNPC m) of
        Inherited \<Rightarrow> (Some TypeError, m)
      | previous \<Rightarrow>
          (let m1 = (case previous of
                       Own c \<Rightarrow> m\<lparr>controllers := (controllers m)(c := setActive False (controllers m c))\<rparr>
                     | other \<Rightarrow> m);
               m2 = m1\<lparr>activeNPC := ident\<rparr>
           in case registered m2 ident of
                Inherited \<Rightarrow> (Some TypeError, m2)
              | Own c \<Rightarrow>
                  (None, m2\<lparr>controllers := (controllers m2)(c := setActive True (controllers m2 c))\<rparr>)
              | Absent \<Rightarrow> (None, m2)))"

text \<open>
  \<open>triggerReaction\<close>: \<open>if (this.npcs[id]) this.npcs[id].react(type)\<close>.  The reaction is an
  animation and changes nothing that is modelled here; on an inherited member the call throws.
\<close>

definition triggerReaction :: "jsstring \<Rightarrow> manager \<Rightarrow> js_error option" where
  "triggerReaction ident m =
     (case getProp (npcs m) ident of Inherited \<Rightarrow> Some TypeError | other \<Rightarrow> None)"

section \<open>Messages on the page and speech\<close>

definition addMessageToUI :: "msg_type \<Rightarrow> jsval \<Rightarrow> aichat \<Rightarrow> nat option \<times> aichat" where
  "addMessageToUI type body s =
     (case chatMessages s of
        None \<Rightarrow> (None, s)
      | Some els \<Rightarrow>
          (Some (nextElem s),
           s\<lparr>chatMessages :=
                Some (els @ [\<lparr>elemId = nextElem s, className = type, textContent = body\<rparr>]),
              nextElem := Suc (nextElem s)\<rparr>))"

text \<open>\<open>if (el) el.remove()\<close>\<close>

definition removeElem :: "nat option \<Rightarrow> aichat \<Rightarrow> aichat" where
  "removeElem el s =
     (case el of
        None \<Rightarrow> s
      | Some k \<Rightarrow> s\<lparr>chatMessages := map_option (filter (\<lambda>e. elemId e \<noteq> k)) (chatMessages s)\<rparr>)"

text \<open>The voice selection of \<open>speak\<close> in \<open>js/ai-chat.js\<close>.\<close>

definition selectVoice :: "lowering \<Rightarrow> jsstring \<Rightarrow> voice list \<Rightarrow> voice option" where
  "selectVoice lc npcId vs =
     (let isFemale = (npcId \<in> set [js ''sooyeon'', js ''yuna'']);
          selectedVoice =
            (if isFemale then
               orElse (find (\<lambda>v. includes_js (v_name v) (js ''Google'')
                                 \<and> includes_js (lc (v_name v)) (js ''female'')) vs)
              (orElse (find (\<lambda>v. includes_js (v_name v) (js ''Female'')) vs)
              (orElse (find (\<lambda>v. includes_js (v_name v) (js ''Samantha'')) vs)
                      (find (\<lambda>v. startsWith (v_lang v) (js ''en'')
                                 \<and> includes_js (v_name v) (js ''female'')) vs)))
             else
               orElse (find (\<lambda>v. includes_js (v_name v) (js ''Google'')
                                 \<and> includes_js (lc (v_name v)) (js ''male'')) vs)
              (orElse (find (\<lambda>v. includes_js (v_name v) (js ''Male'')) vs)
              (orElse (find (\<lambda>v. includes_js (v_name v) (js ''Daniel'')) vs)
                      (find (\<lambda>v. startsWith (v_lang v) (js ''en'')
                                 \<and> includes_js (v_name v) (js ''male'')) vs))))
      in case selectedVoice of
           None \<Rightarrow> find (\<lambda>v. startsWith (v_lang v) (js ''en'')) vs
         | Some v \<Rightarrow> Some v)"

text \<open>The \<open>switch\<close> on the NPC id that sets rate, pitch and volume.\<close>

definition voiceCharacter :: "jsstring \<Rightarrow> utterance \<Rightarrow> utterance" where
  "voiceCharacter npcId u =
     (if npcId = js ''minjun'' then u\<lparr>u_rate := 1, u_pitch := 1\<rparr>
      else if npcId = js ''sooyeon'' then u\<lparr>u_rate := 85 / 100, u_pitch := 115 / 100, u_volume := 8 / 10\<rparr>
      else if npcId = js ''jihoon'' then u\<lparr>u_rate := 115 / 100, u_pitch := 11 / 10\<rparr>
      else if npcId = js ''yuna'' then u\<lparr>u_rate := 1, u_pitch := 105 / 100\<rparr>
      else u)"

definition speak :: "lowering \<Rightarrow> jsval \<Rightarrow> aichat \<Rightarrow> aichat" where
  "speak lc text s =
     (case speechSynthesis s of
        None \<Rightarrow> s
      | Some sy \<Rightarrow>
          (let sy1 = sy\<lparr>utterances := []\<rparr>;
               u0 = \<lparr>u_text = text, u_voice = None, u_rate = 1, u_pitch = 1, u_volume = 1\<rparr>
           in if voices sy1 = [] then
                s\<lparr>speechSynthesis := Some (sy1\<lparr>retries := retries sy1 @ [text]\<rparr>)\<rparr>
              else
                (let u = (case currentNPC s of
                            None \<Rightarrow> u0
                          | Some (npcId, cfg) \<Rightarrow>
                              voiceCharacter npcId (u0\<lparr>u_voice := selectVoice lc npcId (voices sy1)\<rparr>))
                 in s\<lparr>speechSynthesis := Some (sy1\<lparr>utterances := utterances sy1 @ [u]\<rparr>)\<rparr>)))"

section \<open>The smart-mode class of \<open>js/ai-chat.js\<close>\<close>

text \<open>
  An operation that can throw returns the error, if any, with the state it leaves behind: what
  was done before the throw stays done.
\<close>

definition greetings :: "(jsstring \<times> jsstring) list" where
  "greetings =
     [(js ''minjun'',
         js ''Hello, teacher! '' @ [0xC548, 0xB155, 0xD558, 0xC138, 0xC694] @ js ''! I'm Min-jun, the class president. How can I help you today?''),
      (js ''sooyeon'',
         js ''Oh... hello, teacher... *looks up shyly* I was just... drawing something...''),
      (js ''jihoon'',
         js ''Hey, '' @ [0xC120, 0xC0DD, 0xB2D8] @ js ''! What's up? Finally someone to talk to! This class was getting boring, haha!''),
      (js ''yuna'',
         js ''Good day, teacher. I've completed all my assignments. Did you want to discuss the upcoming exam?'')]"

text \<open>
  Reading \<open>config.name\<close> throws when the controller found no configuration for its id.  For
  an inherited key the lookup yields a member of \<open>Object.prototype\<close>, which is returned.
\<close>

definition getGreeting :: "jsstring \<Rightarrow> config option \<Rightarrow> js_error + jsval" where
  "getGreeting npcId config =
     (case getProp (map_of greetings) npcId of
        Own g \<Rightarrow> Inr (Str g)
      | Inherited \<Rightarrow> Inr HostObject
      | Absent \<Rightarrow>
          (case config of
             None \<Rightarrow> Inl TypeError
           | Some c \<Rightarrow> Inr (Str (js ''Hello, I'm '' @ name c @ js ''.''))))"

definition showHistory :: "message list \<Rightarrow> aichat \<Rightarrow> aichat" where
  "showHistory h s =
     foldl (\<lambda>st msg. snd (addMessageToUI (if role msg = User then TUser else TNpc) (content msg) st))
           s h"

text \<open>
  The first statements of \<open>startConversation\<close>: the current NPC is set and a history is
  created when the dictionary has no entry, own or inherited, for the id.
\<close>

definition openConversation :: "jsstring \<Rightarrow> config option \<Rightarrow> aichat \<Rightarrow> aichat" where
  "openConversation npcId config s =
     (let s1 = s\<lparr>currentNPC := Some (npcId, config)\<rparr>
      in case getProp (conversationHistory s1) npcId of
           Absent \<Rightarrow> s1\<lparr>conversationHistory := (conversationHistory s1)(npcId \<mapsto> [])\<rparr>
         | found \<Rightarrow> s1)"

text \<open>\<open>if (window.npcManager) window.npcManager.setActiveNPC(id)\<close>; an error of the manager
  propagates.\<close>

definition notifyManager :: "jsstring option \<Rightarrow> aichat \<Rightarrow> js_error option \<times> aichat" where
  "notifyManager ident s =
     (case npcManager s of
        None \<Rightarrow> (None, s)
      | Some m \<Rightarrow> (fst (setActiveNPC ident m), s\<lparr>npcManager := Some (snd (setActiveNPC ident m))\<rparr>))"

text \<open>The panel is shown and the label is set.\<close>

definition showPanel :: "config option \<Rightarrow> aichat \<Rightarrow> js_error option \<times> aichat" where
  "showPanel config s =
     (let s1 = s\<lparr>chatUI := map_option (\<lambda>hidden. False) (chatUI s)\<rparr>
      in if currentNPCLabel s1 = None then (None, s1)
         else
           (case config of
              None \<Rightarrow> (Some TypeError, s1)
            | Some c \<Rightarrow>
                (None,
                 s1\<lparr>currentNPCLabel :=
                      Some (js ''Talking to: '' @ name c @ js '' ('' @ nameKorean c @ js '')'')\<rparr>)))"

text \<open>The message list is cleared, the history is shown, and a new conversation is greeted.\<close>

definition showMessages :: "lowering \<Rightarrow> jsstring \<Rightarrow> config option \<Rightarrow> aichat \<Rightarrow> js_error option \<times> aichat" where
  "showMessages lc npcId config s =
     (if chatMessages s = None then (None, s)
      else
        (case getProp (conversationHistory s) npcId of
           Own h \<Rightarrow>
             (let s1 = showHistory h (s\<lparr>chatMessages := Some []\<rparr>)
              in if h = [] then
                   (case getGreeting npcId config of
                      Inl e \<Rightarrow> (Some e, s1)
                    | Inr greeting \<Rightarrow>
                        (None, speak lc greeting (snd (addMessageToUI TNpc greeting s1))))
                 else (None, s1))
         | other \<Rightarrow> (Some TypeError, s\<lparr>chatMessages := Some []\<rparr>)))"

definition startConversation ::
    "lowering \<Rightarrow> jsstring \<Rightarrow> config option \<Rightarrow> aichat \<Rightarrow> js_error option \<times> aichat" where
  "startConversation lc npcId config s =
     (case notifyManager (Some npcId) (openConversation npcId config s) of
        (Some e, s1) \<Rightarrow> (Some e, s1)
      | (None, s1) \<Rightarrow>
          (case showPanel config s1 of
             (Some e, s2) \<Rightarrow> (Some e, s2)
           | (None, s2) \<Rightarrow> showMessages lc npcId config s2))"

definition endConversation :: "aichat \<Rightarrow> js_error option \<times> aichat" where
  "endConversation s =
     (case (if currentNPC s \<noteq> None then notifyManager None s else (None, s)) of
        (Some e, s1) \<Rightarrow> (Some e, s1)
      | (None, s1) \<Rightarrow>
          (let s2 = s1\<lparr>speechSynthesis := map_option (\<lambda>sy. sy\<lparr>utterances := []\<rparr>) (speechSynthesis s1)\<rparr>;
               s3 = s2\<lparr>currentNPC := None\<rparr>
           in (None, s3\<lparr>chatUI := map_option (\<lambda>hidden. True) (chatUI s3)\<rparr>)))"

text \<open>
  \<open>generateSmartResponse\<close> after its thinking delay.  \<open>d\<close> is the draw that picks the
  response; the draw that sets the length of the delay changes no value.
\<close>

definition generateSmartResponse :: "lowering \<Rightarrow> aichat \<Rightarrow> jsstring \<Rightarrow> draw \<Rightarrow> js_error + jsval" where
  "generateSmartResponse lc s userMessage d =
     (case currentNPC s of
        None \<Rightarrow> Inl TypeError
      | Some (npcId, config) \<Rightarrow>
          (let lowerMsg = lc userMessage;
               history = orDefault (getProp (conversationHistory s) npcId) (Own []);
               category = selectCategory lowerMsg npcId
           in case lookupPersonality npcId of
                Own npc \<Rightarrow>
                  (case lookupResponses npc category of
                     None \<Rightarrow> Inl TypeError
                   | Some candidates \<Rightarrow> Inr (pickAt d candidates))
              | other \<Rightarrow> Inl TypeError))"

text \<open>
  While \<open>generateSmartResponse\<close> waits for its timer the page handles other events.  The
  model follows those that change the current NPC, the histories or the manager: a click on a
  student calls \<open>startConversation\<close> and the Escape key calls \<open>endConversation\<close>.
  \<open>sendMessage\<close> returns at once while a response is being generated; the handlers of the
  voice button and of speech recognition, which fill the input field and add system messages,
  are not followed.  An error thrown by a handler ends that handler only.
\<close>

datatype event = EvStart jsstring "config option" | EvEnd

definition handleEvent :: "lowering \<Rightarrow> aichat \<Rightarrow> event \<Rightarrow> aichat" where
  "handleEvent lc s ev =
     (case ev of
        EvStart npcId config \<Rightarrow> snd (startConversation lc npcId config s)
      | EvEnd \<Rightarrow> snd (endConversation s))"

definition fallbackText :: jsstring where
  "fallbackText = js ''Sorry, I didn't quite catch that. Could you say it again?''"

text \<open>The \<open>catch\<close> block of \<open>generateResponse\<close>.\<close>

definition recover :: "lowering \<Rightarrow> nat option \<Rightarrow> aichat \<Rightarrow> aichat" where
  "recover lc loadingMsgEl s =
     (let s1 = removeElem loadingMsgEl s;
          s2 = snd (addMessageToUI TNpc (Str fallbackText) s1)
      in speak lc (Str fallbackText) s2)"

text \<open>The state once the events that arrive during an \<open>await\<close> have been handled.\<close>

definition awaiting :: "lowering \<Rightarrow> event list \<Rightarrow> aichat \<Rightarrow> aichat" where
  "awaiting lc pending s = foldl (handleEvent lc) s pending"

text \<open>The start of \<open>generateResponse\<close>: the flag is set and the loading indicator is shown.\<close>

definition thinking :: "aichat \<Rightarrow> nat option \<times> aichat" where
  "thinking s = addMessageToUI TLoading (Str (js ''Thinking'')) (s\<lparr>isGenerating := True\<rparr>)"

text \<open>
  \<open>this.conversationHistory[this.currentNPC.id].push(entry)\<close>: the state with the entry
  appended, or nothing when the statement throws (no current NPC, or no array under the id).
\<close>

definition pushHistory :: "message \<Rightarrow> aichat \<Rightarrow> aichat option" where
  "pushHistory entry s =
     (case currentNPC s of
        None \<Rightarrow> None
      | Some (npcId, config) \<Rightarrow>
          (case getProp (conversationHistory s) npcId of
             Own h \<Rightarrow> Some (s\<lparr>conversationHistory := (conversationHistory s)(npcId \<mapsto> h @ [entry])\<rparr>)
           | other \<Rightarrow> None))"

text \<open>
  \<open>if (window.npcManager) window.npcManager.triggerReaction(this.currentNPC.id, reaction)\<close>:
  whether the statement throws.
\<close>

definition reactionThrows :: "aichat \<Rightarrow> bool" where
  "reactionThrows s =
     (case npcManager s of
        None \<Rightarrow> False
      | Some m \<Rightarrow>
          (case currentNPC s of
             None \<Rightarrow> True
           | Some (npcId, config) \<Rightarrow> triggerReaction npcId m \<noteq> None))"

text \<open>
  The statements of the \<open>try\<close> block that follow the generation of the response; an error in
  any of them leads to the \<open>catch\<close> block with what the earlier ones have done.
\<close>

definition deliver :: "lowering \<Rightarrow> nat option \<Rightarrow> jsval \<Rightarrow> aichat \<Rightarrow> aichat" where
  "deliver lc loadingMsgEl response s =
     (let s1 = snd (addMessageToUI TNpc response (removeElem loadingMsgEl s))
      in case pushHistory \<lparr>role = Assistant, content = response\<rparr> s1 of
           None \<Rightarrow> recover lc loadingMsgEl s1
         | Some s2 \<Rightarrow>
             if reactionThrows s2 then recover lc loadingMsgEl s2 else speak lc response s2)"

text \<open>\<open>pending\<close> are the events handled during the thinking delay.\<close>

definition generateResponse :: "lowering \<Rightarrow> jsstring \<Rightarrow> event list \<Rightarrow> draw \<Rightarrow> aichat \<Rightarrow> aichat" where
  "generateResponse lc userMessage pending d s =
     (let loadingMsgEl = fst (thinking s);
          s1 = awaiting lc pending (snd (thinking s));
          s2 = (case generateSmartResponse lc s1 userMessage d of
                  Inl e \<Rightarrow> recover lc loadingMsgEl s1
                | Inr response \<Rightarrow> deliver lc loadingMsgEl response s1)
      in s2\<lparr>isGenerating := False\<rparr>)"

text \<open>\<open>this.chatInput?.value.trim()\<close> is \<open>undefined\<close> when the input field is missing.\<close>

definition sendMessage ::
    "lowering \<Rightarrow> event list \<Rightarrow> draw \<Rightarrow> aichat \<Rightarrow> js_error option \<times> aichat" where
  "sendMessage lc pending d s =
     (if currentNPC s = None \<or> isGenerating s then (None, s)
      else
        (case map_option trim (chatInput s) of
           None \<Rightarrow> (None, s)
         | Some message \<Rightarrow>
             if message = [] then (None, s)
             else
               (let s1 = s\<lparr>chatInput := Some []\<rparr>;
                    s2 = snd (addMessageToUI TUser (Str message) s1)
                in case pushHistory \<lparr>role = User, content = Str message\<rparr> s2 of
                     None \<Rightarrow> (Some TypeError, s2)
                   | Some s3 \<Rightarrow> (None, generateResponse lc message pending d s3))))"

section \<open>The WebLLM class (the second \<open>AIChat\<close> of the repository)\<close>

text \<open>
  The repository holds a second version of the class, which asks a language model loaded in
  the browser and falls back to scripted responses when the model is not available.  Its
  methods that differ from the smart-mode class carry the prefix \<open>llm_\<close>.
\<close>

record fallback_set =
  fb_greeting :: "jsstring list"
  fb_question :: "jsstring list"
  fb_default :: "jsstring list"

definition minjun_fallbacks :: fallback_set where
  "minjun_fallbacks = \<lparr>
     fb_greeting = [
        js ''Hello, teacher! How can I help you today?'',
        js ''Good day, '' @ [0xC120, 0xC0DD, 0xB2D8] @ js ''!'',
        js ''Welcome to our classroom!''],
     fb_question = [
        js ''That's an excellent question! I think...'',
        js ''Let me help with that, '' @ [0xC120, 0xC0DD, 0xB2D8] @ js ''.'',
        js ''I'd be happy to assist!''],
     fb_default = [
        js ''Yes, '' @ [0xC120, 0xC0DD, 0xB2D8] @ js ''!'',
        js ''I understand.'',
        js ''I'll do my best!'']
   \<rparr>"

definition sooyeon_fallbacks :: fallback_set where
  "sooyeon_fallbacks = \<lparr>
     fb_greeting = [
        js ''Oh... hello...'',
        js ''Hi... *looks down shyly*'',
        js ''...hello, teacher.''],
     fb_question = [
        js ''Um... I think... maybe...'',
        js ''I'm not sure, but... perhaps...'',
        js ''*hesitates* ...I think so?''],
     fb_default = [
        js ''...okay.'',
        js ''*nods quietly*'',
        js ''I see...'']
   \<rparr>"

definition jihoon_fallbacks :: fallback_set where
  "jihoon_fallbacks = \<lparr>
     fb_greeting = [
        js ''Hey there, teach!'',
        js ''What's up, '' @ [0xC120, 0xC0DD, 0xB2D8] @ js ''?'',
        js ''Yo! Welcome to the fun zone!''],
     fb_question = [
        js ''Haha, good question! So basically...'',
        js ''Oh man, let me think... *dramatic pose*'',
        js ''That's easy! Or is it? Haha!''],
     fb_default = [
        js ''Ha! Nice one!'',
        js ''You got it, boss!'',
        js ''This class just got interesting!'']
   \<rparr>"

definition yuna_fallbacks :: fallback_set where
  "yuna_fallbacks = \<lparr>
     fb_greeting = [
        js ''Hello, teacher. I was just reviewing chapter 5.'',
        js ''Good day. Are we having a quiz today?'',
        js ''Hi. I've completed all my homework.''],
     fb_question = [
        js ''According to my notes, the answer is...'',
        js ''I've studied this. The key points are...'',
        js ''Let me check my reference materials...''],
     fb_default = [
        js ''I should note this down.'',
        js ''Understood. Back to studying.'',
        js ''That's useful information.'']
   \<rparr>"

definition fallbacks :: "(jsstring \<times> fallback_set) list" where
  "fallbacks =
     [(js ''minjun'', minjun_fallbacks),
      (js ''sooyeon'', sooyeon_fallbacks),
      (js ''jihoon'', jihoon_fallbacks),
      (js ''yuna'', yuna_fallbacks)]"

definition generateFallbackResponse :: "lowering \<Rightarrow> aichat \<Rightarrow> jsstring \<Rightarrow> draw \<Rightarrow> js_error + jsval" where
  "generateFallbackResponse lc s userMessage d =
     (case currentNPC s of
        None \<Rightarrow> Inl TypeError
      | Some (npcId, config) \<Rightarrow>
          (let lowerMsg = lc userMessage
           in case orDefault (getProp (map_of fallbacks) npcId) (getProp (map_of fallbacks) (js ''minjun'')) of
                Own npcFallbacks \<Rightarrow>
                  (let responseSet =
                         (if includes_js lowerMsg (js ''hello'') \<or> includes_js lowerMsg (js ''hi'')
                             \<or> includes_js lowerMsg (js ''hey'')
                          then fb_greeting npcFallbacks
                          else if includes_js lowerMsg (js ''?'') then fb_question npcFallbacks
                          else fb_default npcFallbacks)
                   in Inr (pickAt d responseSet))
              | other \<Rightarrow> Inl TypeError))"

text \<open>\<open>xs.slice(start)\<close>: a negative \<open>start\<close> counts from the end of the array.\<close>

definition slice_js :: "int \<Rightarrow> 'a list \<Rightarrow> 'a list" where
  "slice_js start xs =
     (let len = int (length xs);
          k = (if start < 0 then max (len + start) 0 else min start len)
      in drop (nat k) xs)"

text \<open>The message array that \<open>generateWithLLM\<close> builds before it calls the engine.\<close>

definition buildMessages :: "aichat \<Rightarrow> jsstring \<Rightarrow> js_error + message list" where
  "buildMessages s userMessage =
     (case currentNPC s of
        None \<Rightarrow> Inl TypeError
      | Some (npcId, config) \<Rightarrow>
          (case config of
             None \<Rightarrow> Inl TypeError
           | Some c \<Rightarrow>
               (case getProp (conversationHistory s) npcId of
                  Own h \<Rightarrow>
                    Inr (\<lparr>role = System, content = Str (systemPrompt c)\<rparr>
                         # map (\<lambda>msg. \<lparr>role = (if role msg = User then User else Assistant),
                                        content = content msg\<rparr>)
                               (slice_js (- 6) h)
                         @ [\<lparr>role = User, content = Str userMessage\<rparr>])
                | other \<Rightarrow> Inl TypeError)))"

definition llm_speak :: "lowering \<Rightarrow> jsval \<Rightarrow> aichat \<Rightarrow> aichat" where
  "llm_speak lc text s =
     (case speechSynthesis s of
        None \<Rightarrow> s
      | Some sy \<Rightarrow>
          (let sy1 = sy\<lparr>utterances := []\<rparr>;
               vs = voices sy1;
               selectedVoice =
                 (case currentNPC s of
                    None \<Rightarrow> None
                  | Some (npcId, config) \<Rightarrow>
                      (let isFemale = (npcId \<in> set [js ''sooyeon'', js ''yuna''])
                       in orElse (find (\<lambda>v. includes_js (v_lang v) (js ''en'')
                                           \<and> ((isFemale \<and> includes_js (lc (v_name v)) (js ''female''))
                                              \<or> (\<not> isFemale \<and> includes_js (lc (v_name v)) (js ''male'')))) vs)
                         (orElse (find (\<lambda>v. includes_js (v_lang v) (js ''en'')) vs)
                                 (case vs of [] \<Rightarrow> None | v # rest \<Rightarrow> Some v))));
               u = \<lparr>u_text = text, u_voice = selectedVoice, u_rate = 9 / 10,
                    u_pitch = (if map_option fst (currentNPC s) = Some (js ''jihoon'') then 11 / 10 else 1),
                    u_volume = 1\<rparr>
           in s\<lparr>speechSynthesis := Some (sy1\<lparr>utterances := utterances sy1 @ [u]\<rparr>)\<rparr>))"

text \<open>A new conversation is announced by a system message and nothing is spoken.\<close>

definition llm_showMessages :: "jsstring \<Rightarrow> config option \<Rightarrow> aichat \<Rightarrow> js_error option \<times> aichat" where
  "llm_showMessages npcId config s =
     (if chatMessages s = None then (None, s)
      else
        (case getProp (conversationHistory s) npcId of
           Own h \<Rightarrow>
             (let s1 = showHistory h (s\<lparr>chatMessages := Some []\<rparr>)
              in if h = [] then
                   (case config of
                      None \<Rightarrow> (Some TypeError, s1)
                    | Some c \<Rightarrow>
                        (None,
                         snd (addMessageToUI TSystem
                                (Str (js ''You approached '' @ name c @ js ''. They look up at you.''))
                                s1)))
                 else (None, s1))
         | other \<Rightarrow> (Some TypeError, s\<lparr>chatMessages := Some []\<rparr>)))"

definition llm_startConversation ::
    "jsstring \<Rightarrow> config option \<Rightarrow> aichat \<Rightarrow> js_error option \<times> aichat" where
  "llm_startConversation npcId config s =
     (case notifyManager (Some npcId) (openConversation npcId config s) of
        (Some e, s1) \<Rightarrow> (Some e, s1)
      | (None, s1) \<Rightarrow>
          (case showPanel config s1 of
             (Some e, s2) \<Rightarrow> (Some e, s2)
           | (None, s2) \<Rightarrow> llm_showMessages npcId config s2))"

definition llm_endConversation :: "aichat \<Rightarrow> js_error option \<times> aichat" where
  "llm_endConversation s =
     (case (if currentNPC s \<noteq> None then notifyManager None s else (None, s)) of
        (Some e, s1) \<Rightarrow> (Some e, s1)
      | (None, s1) \<Rightarrow>
          (let s2 = s1\<lparr>currentNPC := None\<rparr>
           in (None, s2\<lparr>chatUI := map_option (\<lambda>hidden. True) (chatUI s2)\<rparr>)))"

definition llm_handleEvent :: "aichat \<Rightarrow> event \<Rightarrow> aichat" where
  "llm_handleEvent s ev =
     (case ev of
        EvStart npcId config \<Rightarrow> snd (llm_startConversation npcId config s)
      | EvEnd \<Rightarrow> snd (llm_endConversation s))"

text \<open>
  \<open>completion\<close> stands for the call of the engine and the reading of
  \<open>reply.choices[0].message.content\<close>: the text of the reply, or the error of a rejected or
  malformed one.  \<open>pending\<close> are the events handled while the reply is awaited; the message
  array is built before.
\<close>

definition generateWithLLM ::
    "jsstring \<Rightarrow> (message list \<Rightarrow> js_error + jsstring) \<Rightarrow> event list \<Rightarrow> aichat
       \<Rightarrow> (js_error + jsval) \<times> aichat" where
  "generateWithLLM userMessage completion pending s =
     (case buildMessages s userMessage of
        Inl e \<Rightarrow> (Inl e, s)
      | Inr messages \<Rightarrow>
          (let s1 = foldl llm_handleEvent s pending
           in case completion messages of
                Inl e \<Rightarrow> (Inl e, s1)
              | Inr reply \<Rightarrow> (Inr (Str (trim reply)), s1)))"

definition llm_fallbackText :: jsstring where
  "llm_fallbackText = js ''Sorry, I had trouble responding. Try again?''"

definition llm_recover :: "nat option \<Rightarrow> aichat \<Rightarrow> aichat" where
  "llm_recover loadingMsgEl s =
     snd (addMessageToUI TSystem (Str llm_fallbackText) (removeElem loadingMsgEl s))"

text \<open>
  The choice between the engine and the scripted responses.  The scripted fallback is computed
  without waiting, so no event comes in between.
\<close>

definition llm_generate ::
    "lowering \<Rightarrow> jsstring \<Rightarrow> (message list \<Rightarrow> js_error + jsstring) \<Rightarrow> event list \<Rightarrow> draw
       \<Rightarrow> aichat \<Rightarrow> (js_error + jsval) \<times> aichat" where
  "llm_generate lc userMessage completion pending d s =
     (if isLoaded s \<and> engine s then generateWithLLM userMessage completion pending s
      else (generateFallbackResponse lc s userMessage d, s))"

definition llm_deliver :: "lowering \<Rightarrow> nat option \<Rightarrow> jsval \<Rightarrow> aichat \<Rightarrow> aichat" where
  "llm_deliver lc loadingMsgEl response s =
     (let s1 = snd (addMessageToUI TNpc response (removeElem loadingMsgEl s))
      in case pushHistory \<lparr>role = Assistant, content = response\<rparr> s1 of
           None \<Rightarrow> llm_recover loadingMsgEl s1
         | Some s2 \<Rightarrow>
             if reactionThrows s2 then llm_recover loadingMsgEl s2 else llm_speak lc response s2)"

definition llm_generateResponse ::
    "lowering \<Rightarrow> jsstring \<Rightarrow> (message list \<Rightarrow> js_error + jsstring) \<Rightarrow> event list \<Rightarrow> draw
       \<Rightarrow> aichat \<Rightarrow> aichat" where
  "llm_generateResponse lc userMessage completion pending d s =
     (let loadingMsgEl = fst (thinking s);
          generated = llm_generate lc userMessage completion pending d (snd (thinking s));
          s1 = (case fst generated of
                  Inl e \<Rightarrow> llm_recover loadingMsgEl (snd generated)
                | Inr response \<Rightarrow> llm_deliver lc loadingMsgEl response (snd generated))
      in s1\<lparr>isGenerating := False\<rparr>)"

definition llm_sendMessage ::
    "lowering \<Rightarrow> (message list \<Rightarrow> js_error + jsstring) \<Rightarrow> event list \<Rightarrow> draw \<Rightarrow> aichat
       \<Rightarrow> js_error option \<times> aichat" where
  "llm_sendMessage lc completion pending d s =
     (if currentNPC s = None \<or> isGenerating s then (None, s)
      else
        (case map_option trim (chatInput s) of
           None \<Rightarrow> (None, s)
         | Some message \<Rightarrow>
             if message = [] then (None, s)
             else
               (let s1 = s\<lparr>chatInput := Some []\<rparr>;
                    s2 = snd (addMessageToUI TUser (Str message) s1)
                in case pushHistory \<lparr>role = User, content = Str message\<rparr> s2 of
                     None \<Rightarrow> (Some TypeError, s2)
                   | Some s3 \<Rightarrow> (None, llm_generateResponse lc message completion pending d s3))))"

section \<open>Definitions used to state the properties\<close>

text \<open>
  The state after \<open>new AIChat()\<close> and \<open>init()\<close> on a page that has every element of the
  chat panel, with the panel hidden and nothing typed.
\<close>

definition initialChat :: "synth option \<Rightarrow> manager option \<Rightarrow> aichat" where
  "initialChat sy mgr =
     \<lparr>isLoaded = False, engine = False, isGenerating = False, currentNPC = None,
      conversationHistory = Map.empty, speechSynthesis = sy, chatUI = Some True,
      chatMessages = Some [], nextElem = 0, chatInput = Some [], currentNPCLabel = Some [],
      npcManager = mgr\<rparr>"

text \<open>
  What the host guarantees of a draw: \<open>Math.random()\<close> is taken from \<open>[0, 1)\<close>, so the index
  is below the length of a non-empty array.  \<open>lowDraw\<close> and \<open>halfDraw\<close> are the draws in which
  \<open>Math.random()\<close> returns \<open>0\<close> and \<open>0.5\<close>, whose products with a length are exact.
\<close>

definition validDraw :: "draw \<Rightarrow> bool" where
  "validDraw d = (\<forall>n. 0 < n \<longrightarrow> d n < n)"

definition lowDraw :: draw where
  "lowDraw n = 0"

definition halfDraw :: draw where
  "halfDraw n = n div 2"

definition knownStudents :: "jsstring list" where
  "knownStudents = [js ''minjun'', js ''sooyeon'', js ''jihoon'', js ''yuna'']"

text \<open>
  The classifier as the specification words it: the keyword regexes in their order of
  priority, each with the NPCs it applies to and the category it yields; the first rule that
  matches decides, and \<open>default\<close> is left when none does.
\<close>

definition keywordRules :: "(regex \<times> (jsstring \<Rightarrow> bool) \<times> (jsstring \<Rightarrow> category)) list" where
  "keywordRules =
     [(re_greeting, \<lambda>npcId. True, \<lambda>npcId. Greeting),
      (re_question, \<lambda>npcId. True, \<lambda>npcId. Question),
      (re_name, \<lambda>npcId. True, \<lambda>npcId. Name),
      (re_hobby, \<lambda>npcId. True, \<lambda>npcId. Hobby),
      (re_feeling, \<lambda>npcId. True, \<lambda>npcId. Feeling),
      (re_school, \<lambda>npcId. True, \<lambda>npcId. if npcId = js ''yuna'' then Study else School),
      (re_art, \<lambda>npcId. npcId = js ''sooyeon'', \<lambda>npcId. Art),
      (re_joke, \<lambda>npcId. npcId = js ''jihoon'', \<lambda>npcId. Joke)]"

definition firstMatchCategory :: "jsstring \<Rightarrow> jsstring \<Rightarrow> category" where
  "firstMatchCategory lowerMsg npcId =
     (case find (\<lambda>(re, applies, cat). js_match re lowerMsg \<and> applies npcId) keywordRules of
        None \<Rightarrow> Default
      | Some (re, applies, cat) \<Rightarrow> cat npcId)"

text \<open>A response table has a \<open>default\<close> entry and no empty array.\<close>

definition wellFormedTable :: "personality \<Rightarrow> bool" where
  "wellFormedTable p = (map_of (responses p) Default \<noteq> None \<and> [] \<notin> snd ` set (responses p))"


text \<open>
  Voice selection as the specification words it: predicates tried in order; the first voice
  of the list that satisfies the first predicate that any voice satisfies.
\<close>

fun firstOfTiers :: "('a \<Rightarrow> bool) list \<Rightarrow> 'a list \<Rightarrow> 'a option" where
  "firstOfTiers [] vs = None"
| "firstOfTiers (t # ts) vs = (case find t vs of Some v \<Rightarrow> Some v | None \<Rightarrow> firstOfTiers ts vs)"

definition isFemaleNPC :: "jsstring \<Rightarrow> bool" where
  "isFemaleNPC npcId = (npcId = js ''sooyeon'' \<or> npcId = js ''yuna'')"

definition smartTiers :: "lowering \<Rightarrow> jsstring \<Rightarrow> (voice \<Rightarrow> bool) list" where
  "smartTiers lc npcId =
     (let word = (if isFemaleNPC npcId then js ''female'' else js ''male'');
          capitalized = (if isFemaleNPC npcId then js ''Female'' else js ''Male'');
          named = (if isFemaleNPC npcId then js ''Samantha'' else js ''Daniel'')
      in [\<lambda>v. includes_js (v_name v) (js ''Google'') \<and> includes_js (lc (v_name v)) word,
          \<lambda>v. includes_js (v_name v) capitalized,
          \<lambda>v. includes_js (v_name v) named,
          \<lambda>v. startsWith (v_lang v) (js ''en'') \<and> includes_js (v_name v) word,
          \<lambda>v. startsWith (v_lang v) (js ''en'')])"

definition llmTiers :: "lowering \<Rightarrow> jsstring \<Rightarrow> (voice \<Rightarrow> bool) list" where
  "llmTiers lc npcId =
     (let word = (if isFemaleNPC npcId then js ''female'' else js ''male'')
      in [\<lambda>v. includes_js (v_lang v) (js ''en'') \<and> includes_js (lc (v_name v)) word,
          \<lambda>v. includes_js (v_lang v) (js ''en''),
          \<lambda>v. True])"

text \<open>An engine whose call is rejected.\<close>

definition rejected :: "message list \<Rightarrow> js_error + jsstring" where
  "rejected messages = Inl LLMError"

text \<open>
  Sequences of calls of the NPC manager, run on the manager that its constructor builds.
  \<open>idle\<close> is a store in which no controller is active, as \<open>init\<close> leaves each of them.
\<close>

datatype manager_call = RegisterNPC jsstring ref | SetActiveNPC "jsstring option"

definition newManager :: "(ref \<Rightarrow> controller) \<Rightarrow> manager" where
  "newManager store = \<lparr>controllers = store, npcs = Map.empty, activeNPC = None\<rparr>"

definition idle :: "ref \<Rightarrow> controller" where
  "idle c = \<lparr>isActive = False, highlighted = False\<rparr>"

text \<open>A call that throws leaves the manager as it is at the throw; the next call finds it so.\<close>

fun runCall :: "manager \<Rightarrow> manager_call \<Rightarrow> manager" where
  "runCall m (RegisterNPC ident c) = registerNPC ident c m"
| "runCall m (SetActiveNPC ident) = snd (setActiveNPC ident m)"

definition runCalls :: "manager_call list \<Rightarrow> manager \<Rightarrow> manager" where
  "runCalls calls m = foldl runCall m calls"





text \<open>Every stored history is still there, possibly with entries appended.\<close>

definition extends :: "(jsstring \<rightharpoonup> message list) \<Rightarrow> (jsstring \<rightharpoonup> message list) \<Rightarrow> bool" where
  "extends H H' = (\<forall>k h. H k = Some h \<longrightarrow> (\<exists>t. H' k = Some (h @ t)))"

section \<open>Response selection\<close>

subsection \<open>The random pick and the tables\<close>

lemma pickAt_Str:
  assumes "validDraw d" "xs \<noteq> []"
  shows "pickAt d xs = Str (xs ! d (length xs)) \<and> d (length xs) < length xs"
  using assms by (simp add: pickAt_def validDraw_def)

lemma pickAt_member:
  assumes "validDraw d" "xs \<noteq> []"
  shows "\<exists>t. pickAt d xs = Str t \<and> t \<in> set xs"
  using pickAt_Str [OF assms] by (metis nth_mem)

lemma valid_draws: "validDraw lowDraw" "validDraw halfDraw"
  by (simp_all add: validDraw_def lowDraw_def halfDraw_def)

lemma students_not_inherited:
  "\<not> inheritedKey (js ''minjun'')" "\<not> inheritedKey (js ''sooyeon'')"
  "\<not> inheritedKey (js ''jihoon'')" "\<not> inheritedKey (js ''yuna'')"
  by (simp_all add: inheritedKey_def js_def)

lemma constructor_inherited: "inheritedKey (js ''constructor'')"
  by (simp add: inheritedKey_def)

lemma lookupPersonality_cases:
  "lookupPersonality npcId =
     (if npcId = js ''minjun'' then Own minjun_personality
      else if npcId = js ''sooyeon'' then Own sooyeon_personality
      else if npcId = js ''jihoon'' then Own jihoon_personality
      else if npcId = js ''yuna'' then Own yuna_personality
      else if inheritedKey npcId then Inherited
      else Own minjun_personality)"
  by (simp add: lookupPersonality_def getProp_def orDefault_def personalities_def)


lemma orElse_default:
  assumes "map_of tbl d = Some dv"
  shows "\<exists>rs. orElse (map_of tbl c) (map_of tbl d) = Some rs \<and> rs \<in> snd ` set tbl"
proof (cases "map_of tbl c")
  case None
  then show ?thesis using assms by (force simp: orElse_def dest: map_of_SomeD)
next
  case (Some a)
  then show ?thesis by (force simp: orElse_def dest: map_of_SomeD)
qed

lemma minjun_table: "wellFormedTable minjun_personality"
  by (simp add: wellFormedTable_def minjun_personality_def)

lemma sooyeon_table: "wellFormedTable sooyeon_personality"
  by (simp add: wellFormedTable_def sooyeon_personality_def)

lemma jihoon_table: "wellFormedTable jihoon_personality"
  by (simp add: wellFormedTable_def jihoon_personality_def)

lemma yuna_table: "wellFormedTable yuna_personality"
  by (simp add: wellFormedTable_def yuna_personality_def)

lemma lookupPersonality_table:
  assumes "\<not> inheritedKey npcId"
  obtains npc where "lookupPersonality npcId = Own npc" "wellFormedTable npc"
proof -
  have "\<exists>npc. lookupPersonality npcId = Own npc \<and> wellFormedTable npc"
    using assms
    by (simp add: lookupPersonality_cases minjun_table sooyeon_table jihoon_table yuna_table)
  then show ?thesis using that by blast
qed

lemma lookupResponses_total:
  assumes "wellFormedTable npc"
  obtains rs where "lookupResponses npc category = Some rs" "rs \<noteq> []"
    "rs \<in> snd ` set (responses npc)"
proof -
  obtain dv where d: "map_of (responses npc) Default = Some dv"
    using assms by (auto simp: wellFormedTable_def)
  obtain rs where rs: "lookupResponses npc category = Some rs" "rs \<in> snd ` set (responses npc)"
    using orElse_default [OF d, of category] by (auto simp: lookupResponses_def)
  have "rs \<noteq> []" using rs(2) assms unfolding wellFormedTable_def by metis
  then show ?thesis using rs that by simp
qed

lemma lookupResponses_present:
  "map_of (responses npc) category = Some arr \<Longrightarrow> lookupResponses npc category = Some arr"
  by (simp add: lookupResponses_def orElse_def)

lemma lookupResponses_missing:
  "map_of (responses npc) category = None
     \<Longrightarrow> lookupResponses npc category = map_of (responses npc) Default"
  by (simp add: lookupResponses_def orElse_def)


lemma generateSmartResponse_unfold:
  assumes "currentNPC s = Some (npcId, cfg)"
  shows "generateSmartResponse lc s userMessage d
           = (case lookupPersonality npcId of
                Own npc \<Rightarrow>
                  (case lookupResponses npc (selectCategory (lc userMessage) npcId) of
                     None \<Rightarrow> Inl TypeError
                   | Some candidates \<Rightarrow> Inr (pickAt d candidates))
              | Inherited \<Rightarrow> Inl TypeError
              | Absent \<Rightarrow> Inl TypeError)"
  using assms by (simp add: generateSmartResponse_def Let_def split: lookup.splits)

lemma generateSmartResponse_candidates:
  assumes "currentNPC s = Some (npcId, cfg)" "\<not> inheritedKey npcId"
  obtains npc candidates where
      "lookupPersonality npcId = Own npc"
      "wellFormedTable npc"
      "lookupResponses npc (selectCategory (lc userMessage) npcId) = Some candidates"
      "candidates \<noteq> []"
      "candidates \<in> snd ` set (responses npc)"
      "\<And>d. generateSmartResponse lc s userMessage d = Inr (pickAt d candidates)"
proof -
  obtain npc where npc: "lookupPersonality npcId = Own npc" "wellFormedTable npc"
    by (rule lookupPersonality_table [OF assms(2)])
  obtain rs where rs: "lookupResponses npc (selectCategory (lc userMessage) npcId) = Some rs"
      "rs \<noteq> []" "rs \<in> snd ` set (responses npc)"
    by (rule lookupResponses_total [OF npc(2)])
  have "generateSmartResponse lc s userMessage d = Inr (pickAt d rs)" for d
    by (simp add: generateSmartResponse_unfold [OF assms(1)] npc(1) rs(1))
  then show ?thesis using npc rs that by simp
qed


lemma selectCategory_firstMatch: "selectCategory lowerMsg npcId = firstMatchCategory lowerMsg npcId"
  by (simp add: selectCategory_def firstMatchCategory_def keywordRules_def)

lemma map_of_personalities_known:
  "npcId \<in> set knownStudents \<Longrightarrow> lookupPersonality npcId = Own npc
     \<Longrightarrow> map_of personalities npcId = Some npc"
  by (auto simp: knownStudents_def lookupPersonality_cases personalities_def split: if_splits)

lemma known_not_inherited: "npcId \<in> set knownStudents \<Longrightarrow> \<not> inheritedKey npcId"
  using students_not_inherited by (auto simp: knownStudents_def)


lemma member_of_table:
  "t \<in> set rs \<Longrightarrow> rs \<in> snd ` set tbl \<Longrightarrow> t \<in> set (concat (map snd tbl))"
  by auto





subsection \<open>Evaluations at concrete messages\<close>

lemma cat_hello: "selectCategory (asciiLower (js ''hello'')) (js ''minjun'') = Greeting"
  by code_simp

lemma minjun_greeting:
  "lookupResponses minjun_personality Greeting =
     Some [js ''Hello! How can I assist you, '' @ [0xC120, 0xC0DD, 0xB2D8] @ js ''?'',
           js ''Good to see you, teacher! What would you like to discuss?'']"
  by (simp add: lookupResponses_def orElse_def minjun_personality_def)


lemma cat_priority:
  "firstMatchCategory (asciiLower (js ''Hi! Who are you?'')) (js ''yuna'') = Greeting"
  by code_simp

lemma cat_school: "selectCategory (asciiLower (js ''school'')) (js ''sooyeon'') = School"
  by code_simp


lemma sooyeon_known: "lookupPersonality (js ''sooyeon'') = Own sooyeon_personality"
  by (simp add: lookupPersonality_cases js_def)

lemma sooyeon_no_school: "map_of (responses sooyeon_personality) School = None"
  by (simp add: sooyeon_personality_def)

lemma sooyeon_default:
  "map_of (responses sooyeon_personality) Default
     = Some [js ''...okay.'', js ''*nods quietly*'', js ''I see...'', js ''...maybe...'']"
  by (simp add: sooyeon_personality_def)

lemma smart_school:
  "generateSmartResponse asciiLower ((initialChat None None)\<lparr>currentNPC := Some (js ''sooyeon'', None)\<rparr>)
     (js ''school'') d
     = Inr (pickAt d [js ''...okay.'', js ''*nods quietly*'', js ''I see...'', js ''...maybe...''])"
proof -
  have c: "currentNPC ((initialChat None None)\<lparr>currentNPC := Some (js ''sooyeon'', None)\<rparr>)
             = Some (js ''sooyeon'', None)"
    by (simp add: initialChat_def)
  show ?thesis
    by (simp add: generateSmartResponse_unfold [OF c] sooyeon_known cat_school
          lookupResponses_missing [OF sooyeon_no_school] sooyeon_default)
qed

subsection \<open>Claims about \<open>generateSmartResponse\<close>\<close>




text \<open>
  Claim C2 says that for each of the four known students the returned string is an element
  of the array of that NPC for the picked category.  The tables hold no array for some of the
  categories that the classifier picks: \<open>school\<close> is picked for Soo-yeon at the message
  \<open>school\<close>, her table has no \<open>school\<close> entry, and the response comes from her \<open>default\<close> array.
\<close>

theorem school_answered_from_default:
  "selectCategory (asciiLower (js ''school'')) (js ''sooyeon'') = School
   \<and> map_of personalities (js ''sooyeon'') = Some sooyeon_personality
   \<and> map_of (responses sooyeon_personality) School = None
   \<and> generateSmartResponse asciiLower
        ((initialChat None None)\<lparr>currentNPC := Some (js ''sooyeon'', None)\<rparr>) (js ''school'') lowDraw
      = Inr (Str (js ''...okay.''))"
proof -
  have m: "map_of personalities (js ''sooyeon'') = Some sooyeon_personality"
    by (simp add: personalities_def js_def)
  have g: "generateSmartResponse asciiLower
        ((initialChat None None)\<lparr>currentNPC := Some (js ''sooyeon'', None)\<rparr>) (js ''school'') lowDraw
      = Inr (Str (js ''...okay.''))"
    unfolding smart_school by (simp add: pickAt_def lowDraw_def)
  show ?thesis using cat_school m sooyeon_no_school g by (intro conjI)
qed

text \<open>
  Claim C2, amended: for every user message and each of the four known students,
  \<open>generateSmartResponse\<close> matches the lower-cased message against the keyword regexes in
  their order of priority to pick one category, takes the personality table of the NPC, and
  returns the element that the draw selects from the array of that NPC for the picked
  category when the table has one, and from the \<open>default\<close> array of that NPC otherwise; the
  returned string is a member of the static response tables.
\<close>

theorem generateSmartResponse_steps:
  assumes "npcId \<in> set knownStudents" "currentNPC s = Some (npcId, cfg)" "validDraw d"
  shows "\<exists>npc t.
           selectCategory (lc userMessage) npcId = firstMatchCategory (lc userMessage) npcId
         \<and> map_of personalities npcId = Some npc
         \<and> generateSmartResponse lc s userMessage d = Inr (Str t)
         \<and> t \<in> set (concat (map snd (responses npc)))
         \<and> (case map_of (responses npc) (firstMatchCategory (lc userMessage) npcId) of
              Some array \<Rightarrow>
                generateSmartResponse lc s userMessage d = Inr (pickAt d array) \<and> t \<in> set array
            | None \<Rightarrow>
                (\<exists>fallback. map_of (responses npc) Default = Some fallback
                   \<and> generateSmartResponse lc s userMessage d = Inr (pickAt d fallback)
                   \<and> t \<in> set fallback))"
proof -
  have own: "\<not> inheritedKey npcId" using assms(1) by (rule known_not_inherited)
  obtain npc candidates where c:
      "lookupPersonality npcId = Own npc"
      "wellFormedTable npc"
      "lookupResponses npc (selectCategory (lc userMessage) npcId) = Some candidates"
      "candidates \<noteq> []" "candidates \<in> snd ` set (responses npc)"
      "\<And>d. generateSmartResponse lc s userMessage d = Inr (pickAt d candidates)"
    by (rule generateSmartResponse_candidates
               [OF assms(2) own, where lc = lc and userMessage = userMessage]) blast
  obtain t where t: "pickAt d candidates = Str t" "t \<in> set candidates"
    using pickAt_member [OF assms(3) c(4)] by blast
  have m: "map_of personalities npcId = Some npc"
    using assms(1) c(1) by (rule map_of_personalities_known)
  have u: "t \<in> set (concat (map snd (responses npc)))"
    using t(2) c(5) by (rule member_of_table)
  have l: "lookupResponses npc (firstMatchCategory (lc userMessage) npcId) = Some candidates"
    using c(3) by (simp only: selectCategory_firstMatch)
  have g: "generateSmartResponse lc s userMessage d = Inr (Str t)"
    using c(6) t(1) by simp
  have k: "(case map_of (responses npc) (firstMatchCategory (lc userMessage) npcId) of
              Some array \<Rightarrow>
                generateSmartResponse lc s userMessage d = Inr (pickAt d array) \<and> t \<in> set array
            | None \<Rightarrow>
                (\<exists>fallback. map_of (responses npc) Default = Some fallback
                   \<and> generateSmartResponse lc s userMessage d = Inr (pickAt d fallback)
                   \<and> t \<in> set fallback))"
  proof (cases "map_of (responses npc) (firstMatchCategory (lc userMessage) npcId)")
    case None
    then have "map_of (responses npc) Default = Some candidates"
      using l lookupResponses_missing [of npc "firstMatchCategory (lc userMessage) npcId"] by simp
    then show ?thesis using None t g by simp
  next
    case (Some array)
    then have "array = candidates"
      using l lookupResponses_present [of npc "firstMatchCategory (lc userMessage) npcId" array] by simp
    then show ?thesis using Some t g by simp
  qed
  show ?thesis
    by (rule exI [of _ npc], rule exI [of _ t]) (intro conjI selectCategory_firstMatch m g u k)
qed

theorem generateSmartResponse_steps_witness:
  "\<exists>npc t.
      selectCategory (asciiLower (js ''Hi! Who are you?'')) (js ''yuna'') = Greeting
    \<and> map_of personalities (js ''yuna'') = Some npc
    \<and> generateSmartResponse asciiLower
         ((initialChat None None)\<lparr>currentNPC := Some (js ''yuna'', None)\<rparr>)
         (js ''Hi! Who are you?'') halfDraw = Inr (Str t)
    \<and> t \<in> set (concat (map snd (responses npc)))
    \<and> (case map_of (responses npc) Greeting of
         Some array \<Rightarrow>
           generateSmartResponse asciiLower
             ((initialChat None None)\<lparr>currentNPC := Some (js ''yuna'', None)\<rparr>)
             (js ''Hi! Who are you?'') halfDraw = Inr (pickAt halfDraw array) \<and> t \<in> set array
       | None \<Rightarrow>
           (\<exists>fallback. map_of (responses npc) Default = Some fallback
              \<and> generateSmartResponse asciiLower
                   ((initialChat None None)\<lparr>currentNPC := Some (js ''yuna'', None)\<rparr>)
                   (js ''Hi! Who are you?'') halfDraw = Inr (pickAt halfDraw fallback)
              \<and> t \<in> set fallback))"
proof -
  let ?s = "(initialChat None None)\<lparr>currentNPC := Some (js ''yuna'', None)\<rparr>"
  have h1: "js ''yuna'' \<in> set knownStudents" by (simp add: knownStudents_def)
  have h2: "currentNPC ?s = Some (js ''yuna'', None)" by (simp add: initialChat_def)
  show ?thesis
    using generateSmartResponse_steps [OF h1 h2 valid_draws(2), of asciiLower "js ''Hi! Who are you?''"]
    unfolding cat_priority .
qed

text \<open>
  Claim C3: the selection consumes only the user message and the NPC id.  Two runs that
  differ in the conversation history only have the same outcome, and that outcome is
  computed from the category that the message and the id select and from the response array
  of the id for that category, neither of which reads the history.
\<close>

theorem history_not_consulted:
  "generateSmartResponse lc (s\<lparr>conversationHistory := h1\<rparr>) userMessage d
     = generateSmartResponse lc (s\<lparr>conversationHistory := h2\<rparr>) userMessage d
   \<and> (currentNPC s = Some (npcId, cfg) \<longrightarrow>
        generateSmartResponse lc (s\<lparr>conversationHistory := h1\<rparr>) userMessage d
          = (case lookupPersonality npcId of
               Own npc \<Rightarrow>
                 (case lookupResponses npc (selectCategory (lc userMessage) npcId) of
                    None \<Rightarrow> Inl TypeError
                  | Some candidates \<Rightarrow> Inr (pickAt d candidates))
             | Inherited \<Rightarrow> Inl TypeError
             | Absent \<Rightarrow> Inl TypeError))"
proof -
  have a: "generateSmartResponse lc (s\<lparr>conversationHistory := h1\<rparr>) userMessage d
     = generateSmartResponse lc (s\<lparr>conversationHistory := h2\<rparr>) userMessage d"
    by (simp add: generateSmartResponse_def Let_def split: option.splits prod.splits)
  have b: "generateSmartResponse lc (s\<lparr>conversationHistory := h1\<rparr>) userMessage d
          = (case lookupPersonality npcId of
               Own npc \<Rightarrow>
                 (case lookupResponses npc (selectCategory (lc userMessage) npcId) of
                    None \<Rightarrow> Inl TypeError
                  | Some candidates \<Rightarrow> Inr (pickAt d candidates))
             | Inherited \<Rightarrow> Inl TypeError
             | Absent \<Rightarrow> Inl TypeError)"
    if "currentNPC s = Some (npcId, cfg)"
    using that
    by (simp add: generateSmartResponse_unfold [of "s\<lparr>conversationHistory := h1\<rparr>" npcId cfg])
  show ?thesis by (intro conjI impI a) (rule b)
qed

theorem history_not_consulted_witness:
  "generateSmartResponse asciiLower
       ((initialChat None None)\<lparr>currentNPC := Some (js ''minjun'', None), conversationHistory := Map.empty\<rparr>)
       (js ''hello'') halfDraw
     = generateSmartResponse asciiLower
         ((initialChat None None)\<lparr>currentNPC := Some (js ''minjun'', None),
              conversationHistory := [js ''minjun'' \<mapsto> [\<lparr>role = User, content = Str (js ''hello'')\<rparr>]]\<rparr>)
         (js ''hello'') halfDraw
   \<and> generateSmartResponse asciiLower
       ((initialChat None None)\<lparr>currentNPC := Some (js ''minjun'', None), conversationHistory := Map.empty\<rparr>)
       (js ''hello'') halfDraw
     = Inr (Str (js ''Good to see you, teacher! What would you like to discuss?''))"
proof -
  let ?s = "(initialChat None None)\<lparr>currentNPC := Some (js ''minjun'', None)\<rparr>"
  have h: "currentNPC ?s = Some (js ''minjun'', None)" by (simp add: initialChat_def)
  note run = history_not_consulted
            [where lc = asciiLower and s = ?s and ?h1.0 = Map.empty and userMessage = "js ''hello''"
               and d = halfDraw and npcId = "js ''minjun''" and cfg = None
               and ?h2.0 = "[js ''minjun'' \<mapsto> [\<lparr>role = User, content = Str (js ''hello'')\<rparr>]]"]
  have p: "(case lookupPersonality (js ''minjun'') of
               Own npc \<Rightarrow>
                 (case lookupResponses npc (selectCategory (asciiLower (js ''hello'')) (js ''minjun'')) of
                    None \<Rightarrow> Inl TypeError
                  | Some candidates \<Rightarrow> Inr (pickAt halfDraw candidates))
             | Inherited \<Rightarrow> Inl TypeError
             | Absent \<Rightarrow> Inl TypeError)
           = Inr (Str (js ''Good to see you, teacher! What would you like to discuss?''))"
    unfolding cat_hello
    by (simp add: lookupPersonality_cases students_not_inherited minjun_greeting pickAt_def halfDraw_def)
  show ?thesis
    by (intro conjI run [THEN conjunct1] trans [OF run [THEN conjunct2, THEN mp, OF h] p])
qed




section \<open>The request sent to the language model\<close>

lemma slice_last6: "slice_js (- 6) h = drop (length h - 6) h"
proof -
  have "nat (max (int (length h) + - 6) 0) = length h - 6" by linarith
  then show ?thesis by (simp add: slice_js_def Let_def)
qed

text \<open>
  Claim C4: when the language model is used, \<open>generateWithLLM\<close> builds the list of request
  messages from the system prompt of the NPC first, then the last six entries of the
  conversation history of that NPC in their stored order (all of them when there are fewer
  than six), then the current user message last; this list is what the engine is called with.
\<close>

theorem generateWithLLM_request:
  assumes "currentNPC s = Some (npcId, Some c)" "conversationHistory s npcId = Some h"
  shows "\<exists>recent.
           buildMessages s userMessage
             = Inr (\<lparr>role = System, content = Str (systemPrompt c)\<rparr>
                    # recent @ [\<lparr>role = User, content = Str userMessage\<rparr>])
         \<and> length recent = min 6 (length h)
         \<and> (\<forall>i < length recent.
                content (recent ! i) = content (h ! (length h - length recent + i))
              \<and> role (recent ! i)
                  = (if role (h ! (length h - length recent + i)) = User then User else Assistant))
         \<and> fst (generateWithLLM userMessage completion pending s)
             = (case completion (\<lparr>role = System, content = Str (systemPrompt c)\<rparr>
                                 # recent @ [\<lparr>role = User, content = Str userMessage\<rparr>]) of
                  Inl e \<Rightarrow> Inl e
                | Inr reply \<Rightarrow> Inr (Str (trim reply)))"
proof -
  let ?norm = "\<lambda>msg. \<lparr>role = (if role msg = User then User else Assistant), content = content msg\<rparr>"
  let ?recent = "map ?norm (drop (length h - 6) h)"
  have b: "buildMessages s userMessage
             = Inr (\<lparr>role = System, content = Str (systemPrompt c)\<rparr>
                    # ?recent @ [\<lparr>role = User, content = Str userMessage\<rparr>])"
    using assms by (simp add: buildMessages_def getProp_def slice_last6)
  have l: "length ?recent = min 6 (length h)" by simp
  have len: "length ?recent = length h - (length h - 6)" by simp
  have k: "length h - length ?recent = length h - 6" unfolding len by arith
  have n: "\<forall>i < length ?recent.
                content (?recent ! i) = content (h ! (length h - length ?recent + i))
              \<and> role (?recent ! i)
                  = (if role (h ! (length h - length ?recent + i)) = User then User else Assistant)"
    unfolding k
  proof (intro allI impI)
    fix i assume i: "i < length ?recent"
    then have i': "i < length (drop (length h - 6) h)" by simp
    have e: "?recent ! i = ?norm (drop (length h - 6) h ! i)" using i' by (rule nth_map)
    have d: "drop (length h - 6) h ! i = h ! (length h - 6 + i)"
      using i' by simp
    show "content (?recent ! i) = content (h ! (length h - 6 + i))
              \<and> role (?recent ! i)
                  = (if role (h ! (length h - 6 + i)) = User then User else Assistant)"
      unfolding e d by simp
  qed
  have g: "fst (generateWithLLM userMessage completion pending s)
             = (case completion (\<lparr>role = System, content = Str (systemPrompt c)\<rparr>
                                 # ?recent @ [\<lparr>role = User, content = Str userMessage\<rparr>]) of
                  Inl e \<Rightarrow> Inl e
                | Inr reply \<Rightarrow> Inr (Str (trim reply)))"
    by (simp add: generateWithLLM_def b Let_def split: sum.splits)
  show ?thesis
    by (rule exI [of _ ?recent]) (intro conjI b l n g)
qed


theorem generateWithLLM_request_witness:
  "\<exists>recent.
      buildMessages
        ((initialChat None None)
           \<lparr>currentNPC := Some (js ''minjun'', Some \<lparr>name = js ''Min-jun'', nameKorean = [0xBBFC, 0xC900],
                                                   systemPrompt = js ''You are Min-jun''\<rparr>),
            conversationHistory :=
              [js ''minjun'' \<mapsto>
                 [\<lparr>role = User, content = Str (js ''a'')\<rparr>, \<lparr>role = Assistant, content = Str (js ''b'')\<rparr>,
                  \<lparr>role = User, content = Str (js ''c'')\<rparr>, \<lparr>role = Assistant, content = Str (js ''d'')\<rparr>,
                  \<lparr>role = User, content = Str (js ''e'')\<rparr>, \<lparr>role = Assistant, content = Str (js ''f'')\<rparr>,
                  \<lparr>role = User, content = Str (js ''g'')\<rparr>]]\<rparr>)
        (js ''g'')
      = Inr (\<lparr>role = System, content = Str (js ''You are Min-jun'')\<rparr>
             # recent @ [\<lparr>role = User, content = Str (js ''g'')\<rparr>])
    \<and> length recent = 6
    \<and> content (recent ! 0) = Str (js ''b'')
    \<and> content (recent ! 5) = Str (js ''g'')"
proof -
  let ?h = "[\<lparr>role = User, content = Str (js ''a'')\<rparr>, \<lparr>role = Assistant, content = Str (js ''b'')\<rparr>,
             \<lparr>role = User, content = Str (js ''c'')\<rparr>, \<lparr>role = Assistant, content = Str (js ''d'')\<rparr>,
             \<lparr>role = User, content = Str (js ''e'')\<rparr>, \<lparr>role = Assistant, content = Str (js ''f'')\<rparr>,
             \<lparr>role = User, content = Str (js ''g'')\<rparr>]"
  let ?c = "\<lparr>name = js ''Min-jun'', nameKorean = [0xBBFC, 0xC900], systemPrompt = js ''You are Min-jun''\<rparr>"
  let ?s = "(initialChat None None)
              \<lparr>currentNPC := Some (js ''minjun'', Some ?c), conversationHistory := [js ''minjun'' \<mapsto> ?h]\<rparr>"
  have cur: "currentNPC ?s = Some (js ''minjun'', Some ?c)" by (simp add: initialChat_def)
  have his: "conversationHistory ?s (js ''minjun'') = Some ?h" by (simp add: initialChat_def)
  obtain recent where r:
      "buildMessages ?s (js ''g'')
         = Inr (\<lparr>role = System, content = Str (systemPrompt ?c)\<rparr>
                # recent @ [\<lparr>role = User, content = Str (js ''g'')\<rparr>])"
      "length recent = min 6 (length ?h)"
      "\<forall>i < length recent.
          content (recent ! i) = content (?h ! (length ?h - length recent + i))
        \<and> role (recent ! i)
            = (if role (?h ! (length ?h - length recent + i)) = User then User else Assistant)"
    using generateWithLLM_request [OF cur his, of "js ''g''" rejected "[]"] by blast
  have l: "length recent = 6" using r(2) by simp
  have c0: "content (recent ! 0) = Str (js ''b'')"
    using r(3) [rule_format, of 0] l by simp
  have c5: "content (recent ! 5) = Str (js ''g'')"
    using r(3) [rule_format, of 5] l by simp
  have b: "buildMessages ?s (js ''g'')
         = Inr (\<lparr>role = System, content = Str (js ''You are Min-jun'')\<rparr>
                # recent @ [\<lparr>role = User, content = Str (js ''g'')\<rparr>])"
    using r(1) by simp
  show ?thesis
    by (rule exI [of _ recent]) (intro conjI b l c0 c5)
qed

section \<open>Sending a message\<close>

lemma trim_spaces: "trim (js ''   '') = []"
  by (simp add: trim_def js_def isWhiteSpace_def)

text \<open>
  Claim C10: \<open>sendMessage\<close> does nothing when its preconditions fail.  If no conversation is
  active, or a response is being generated, or the trimmed input is empty (or the input field
  is missing), it returns with the state unchanged: nothing is appended to any history and no
  message is added to the page.  Both classes have this method.
\<close>

theorem sendMessage_noop:
  assumes "currentNPC s = None \<or> isGenerating s
           \<or> (case chatInput s of None \<Rightarrow> True | Some v \<Rightarrow> trim v = [])"
  shows "sendMessage lc pending d s = (None, s)
       \<and> llm_sendMessage lc completion pending d s = (None, s)"
  using assms by (auto simp: sendMessage_def llm_sendMessage_def split: option.splits)


theorem sendMessage_noop_witness:
  "sendMessage asciiLower [] lowDraw
     ((initialChat None None)\<lparr>currentNPC := Some (js ''minjun'', None),
         conversationHistory := [js ''minjun'' \<mapsto> []], chatInput := Some (js ''   '')\<rparr>)
   = (None, (initialChat None None)\<lparr>currentNPC := Some (js ''minjun'', None),
         conversationHistory := [js ''minjun'' \<mapsto> []], chatInput := Some (js ''   '')\<rparr>)
   \<and> llm_sendMessage asciiLower rejected [] lowDraw
     ((initialChat None None)\<lparr>currentNPC := Some (js ''minjun'', None),
         conversationHistory := [js ''minjun'' \<mapsto> []], chatInput := Some (js ''   '')\<rparr>)
   = (None, (initialChat None None)\<lparr>currentNPC := Some (js ''minjun'', None),
         conversationHistory := [js ''minjun'' \<mapsto> []], chatInput := Some (js ''   '')\<rparr>)"
  using sendMessage_noop
          [of "(initialChat None None)\<lparr>currentNPC := Some (js ''minjun'', None),
                 conversationHistory := [js ''minjun'' \<mapsto> []], chatInput := Some (js ''   '')\<rparr>"
              asciiLower "[]" lowDraw rejected]
  by (simp add: trim_spaces)

section \<open>The NPC manager keeps one NPC active\<close>




lemma registered_update [simp]:
  "registered (m\<lparr>activeNPC := a\<rparr>) ident = registered m ident"
  "registered (m\<lparr>controllers := cs\<rparr>) ident = registered m ident"
  by (simp_all add: registered_def split: option.splits)








lemma ids_ne:
  "js ''minjun'' \<noteq> []" "js ''sooyeon'' \<noteq> []" "js ''minjun'' \<noteq> js ''sooyeon''"
  "js ''sooyeon'' \<noteq> js ''minjun''"
  "js ''minjun'' \<noteq> js ''__proto__''" "js ''sooyeon'' \<noteq> js ''__proto__''"
  "js ''constructor'' \<noteq> []" "js ''constructor'' \<noteq> js ''minjun''"
  by (simp_all add: js_def)

text \<open>
  An id that names an inherited member blocks the manager: \<open>setActiveNPC('constructor')\<close>
  deactivates the active controller, stores the id and throws; every later call throws
  before it changes anything.
\<close>

lemma inherited_id_blocks_manager:
  "fst (setActiveNPC (Some (js ''constructor''))
          (runCalls [RegisterNPC (js ''minjun'') 0, SetActiveNPC (Some (js ''minjun''))]
                    (newManager idle))) = Some TypeError
   \<and> runCalls [RegisterNPC (js ''minjun'') 0, SetActiveNPC (Some (js ''minjun'')),
               SetActiveNPC (Some (js ''constructor'')), SetActiveNPC (Some (js ''minjun''))]
              (newManager idle)
     = \<lparr>controllers = (idle(0 := setActive True (idle 0)))(0 := setActive False (setActive True (idle 0))),
        npcs = [js ''minjun'' \<mapsto> 0], activeNPC = Some (js ''constructor'')\<rparr>"
  by (simp add: runCalls_def newManager_def registerNPC_def setActiveNPC_def
        registered_def getProp_def constructor_inherited students_not_inherited Let_def ids_ne)




section \<open>Voice selection\<close>

lemma firstOfTiers_None:
  "firstOfTiers ts vs = None \<longleftrightarrow> (\<forall>t \<in> set ts. \<forall>v \<in> set vs. \<not> t v)"
proof (induction ts)
  case Nil
  then show ?case by simp
next
  case (Cons t ts)
  have f: "find t vs = None \<longleftrightarrow> (\<forall>v \<in> set vs. \<not> t v)"
    unfolding find_None_iff by blast
  show ?case
  proof (cases "find t vs")
    case None
    then show ?thesis using Cons f by simp
  next
    case (Some w)
    then have "\<not> (\<forall>v \<in> set vs. \<not> t v)" using f by simp
    then show ?thesis using Some by auto
  qed
qed

lemma firstOfTiers_Some:
  assumes "firstOfTiers ts vs = Some v"
  shows "\<exists>k < length ts. (ts ! k) v \<and> v \<in> set vs
           \<and> (\<forall>j < k. \<forall>w \<in> set vs. \<not> (ts ! j) w)
           \<and> (\<exists>i < length vs. vs ! i = v \<and> (\<forall>j < i. \<not> (ts ! k) (vs ! j)))"
  using assms
proof (induction ts)
  case Nil
  then show ?case by simp
next
  case (Cons t ts)
  show ?case
  proof (cases "find t vs")
    case None
    then have no: "\<forall>w \<in> set vs. \<not> t w" unfolding find_None_iff by blast
    have "firstOfTiers ts vs = Some v" using Cons.prems None by simp
    then obtain k where k: "k < length ts" "(ts ! k) v" "v \<in> set vs"
        "\<forall>j < k. \<forall>w \<in> set vs. \<not> (ts ! j) w"
        "\<exists>i < length vs. vs ! i = v \<and> (\<forall>j < i. \<not> (ts ! k) (vs ! j))"
      using Cons.IH by blast
    have e: "\<forall>j < Suc k. \<forall>w \<in> set vs. \<not> ((t # ts) ! j) w"
      using no k(4) by (auto simp: nth_Cons split: nat.splits)
    show ?thesis
      by (rule exI [of _ "Suc k"]) (use k e in simp)
  next
    case (Some w)
    then have w: "w = v" using Cons.prems by simp
    obtain i where i: "i < length vs" "t (vs ! i)" "v = vs ! i" "\<forall>j < i. \<not> t (vs ! j)"
      using Some unfolding w find_Some_iff by blast
    have m: "v \<in> set vs" using i(1,3) by simp
    show ?thesis
      by (rule exI [of _ 0]) (use i m in auto)
  qed
qed

lemma selectVoice_tiers: "selectVoice lc npcId vs = firstOfTiers (smartTiers lc npcId) vs"
  by (simp add: selectVoice_def smartTiers_def isFemaleNPC_def orElse_def Let_def
        split: option.splits)

lemma voiceCharacter_voice: "u_voice (voiceCharacter npcId u) = u_voice u"
  by (simp add: voiceCharacter_def)

lemma speak_voice:
  assumes "currentNPC s = Some (npcId, cfg)" "speechSynthesis s = Some sy" "voices sy \<noteq> []"
  shows "\<exists>u. map_option utterances (speechSynthesis (speak lc text s)) = Some [u]
           \<and> u_text u = text
           \<and> u_voice u = firstOfTiers (smartTiers lc npcId) (voices sy)"
  using assms
  by (simp add: speak_def Let_def voiceCharacter_voice selectVoice_tiers voiceCharacter_def)

lemma llm_speak_voice:
  assumes "currentNPC s = Some (npcId, cfg)" "speechSynthesis s = Some sy"
  shows "\<exists>u. map_option utterances (speechSynthesis (llm_speak lc text s)) = Some [u]
           \<and> u_text u = text
           \<and> u_voice u = firstOfTiers (llmTiers lc npcId) (voices sy)"
  using assms
  by (cases "voices sy")
     (simp_all add: llm_speak_def Let_def llmTiers_def isFemaleNPC_def orElse_def
        split: option.splits)

lemma llmTiers_None: "firstOfTiers (llmTiers lc npcId) vs = None \<longleftrightarrow> vs = []"
  by (cases vs) (simp_all add: llmTiers_def Let_def split: option.splits)

lemma no_tier_for_amelie:
  "firstOfTiers (smartTiers asciiLower (js ''minjun'')) [\<lparr>v_name = js ''Amelie'', v_lang = js ''fr-FR''\<rparr>] = None"
  by code_simp

lemma google_female_for_sooyeon:
  "firstOfTiers (smartTiers asciiLower (js ''sooyeon''))
     [\<lparr>v_name = js ''Daniel'', v_lang = js ''en-GB''\<rparr>,
      \<lparr>v_name = js ''Samantha'', v_lang = js ''en-US''\<rparr>,
      \<lparr>v_name = js ''Google UK English Female'', v_lang = js ''en-GB''\<rparr>]
   = Some \<lparr>v_name = js ''Google UK English Female'', v_lang = js ''en-GB''\<rparr>"
  by code_simp

text \<open>
  Claim C7 describes the voice selection of \<open>speak\<close> as four predicates tried in order and a
  fallback to the first English voice, the voice being left unset when none matches.  That is
  \<open>speak\<close> of the smart-mode class.  \<open>speak\<close> of the WebLLM class ends its scan with
  \<open>voices[0]\<close>: with a single French voice that matches none of the predicates of the claim,
  it still sets that voice.
\<close>

theorem llm_speak_takes_any_voice:
  "map_option (map u_voice \<circ> utterances)
     (speechSynthesis
        (llm_speak asciiLower (Str (js ''hi''))
           ((initialChat (Some \<lparr>voices = [\<lparr>v_name = js ''Amelie'', v_lang = js ''fr-FR''\<rparr>],
                                 utterances = [], retries = []\<rparr>) None)
              \<lparr>currentNPC := Some (js ''minjun'', None)\<rparr>)))
     = Some [Some \<lparr>v_name = js ''Amelie'', v_lang = js ''fr-FR''\<rparr>]
   \<and> firstOfTiers (smartTiers asciiLower (js ''minjun'')) [\<lparr>v_name = js ''Amelie'', v_lang = js ''fr-FR''\<rparr>] = None
   \<and> \<not> startsWith (js ''fr-FR'') (js ''en'')"
proof -
  let ?s = "(initialChat (Some \<lparr>voices = [\<lparr>v_name = js ''Amelie'', v_lang = js ''fr-FR''\<rparr>],
                                 utterances = [], retries = []\<rparr>) None)
              \<lparr>currentNPC := Some (js ''minjun'', None)\<rparr>"
  have en: "\<not> includes_js (js ''fr-FR'') (js ''en'')" by code_simp
  have a: "map_option (map u_voice \<circ> utterances) (speechSynthesis (llm_speak asciiLower (Str (js ''hi'')) ?s))
     = Some [Some \<lparr>v_name = js ''Amelie'', v_lang = js ''fr-FR''\<rparr>]"
    by (simp add: llm_speak_def initialChat_def Let_def orElse_def en)
  have c: "\<not> startsWith (js ''fr-FR'') (js ''en'')" by code_simp
  show ?thesis using a no_tier_for_amelie c by (intro conjI)
qed


text \<open>
  Claim C7, amended: with an active NPC and a non-empty list of voices, \<open>speak\<close> of the
  smart-mode class sets the first voice that satisfies, in this order, (Google in the name
  and the gender word in the lower-cased name), (the capitalized gender word in the name),
  (Samantha for a female NPC, Daniel for a male one), (a language that starts with \<open>en\<close> and
  the lower-case gender word in the name), (a language that starts with \<open>en\<close>), and leaves
  the voice unset exactly when no voice satisfies any of them.  \<open>speak\<close> of the WebLLM class
  sets the first voice that satisfies (a language that contains \<open>en\<close> and the gender word in
  the lower-cased name), else (a language that contains \<open>en\<close>), else the first voice of
  the list, so that it always sets one.
\<close>

theorem voice_selection:
  assumes "currentNPC s = Some (npcId, cfg)" "speechSynthesis s = Some sy" "voices sy \<noteq> []"
  shows "(\<exists>u. map_option utterances (speechSynthesis (speak lc text s)) = Some [u]
              \<and> u_voice u = firstOfTiers (smartTiers lc npcId) (voices sy)
              \<and> (u_voice u = None \<longleftrightarrow> (\<forall>t \<in> set (smartTiers lc npcId). \<forall>v \<in> set (voices sy). \<not> t v)))
       \<and> (\<exists>u v. map_option utterances (speechSynthesis (llm_speak lc text s)) = Some [u]
              \<and> u_voice u = firstOfTiers (llmTiers lc npcId) (voices sy)
              \<and> u_voice u = Some v)"
proof -
  obtain u where u: "map_option utterances (speechSynthesis (speak lc text s)) = Some [u]"
      "u_voice u = firstOfTiers (smartTiers lc npcId) (voices sy)"
    using speak_voice [OF assms] by blast
  have a: "u_voice u = None \<longleftrightarrow> (\<forall>t \<in> set (smartTiers lc npcId). \<forall>v \<in> set (voices sy). \<not> t v)"
    unfolding u(2) by (rule firstOfTiers_None)
  obtain u' where u': "map_option utterances (speechSynthesis (llm_speak lc text s)) = Some [u']"
      "u_voice u' = firstOfTiers (llmTiers lc npcId) (voices sy)"
    using llm_speak_voice [OF assms(1,2)] by blast
  obtain v where v: "u_voice u' = Some v"
    using u'(2) llmTiers_None [of lc npcId "voices sy"] assms(3) by (cases "u_voice u'") auto
  have x: "\<exists>u. map_option utterances (speechSynthesis (speak lc text s)) = Some [u]
              \<and> u_voice u = firstOfTiers (smartTiers lc npcId) (voices sy)
              \<and> (u_voice u = None \<longleftrightarrow> (\<forall>t \<in> set (smartTiers lc npcId). \<forall>v \<in> set (voices sy). \<not> t v))"
    by (rule exI [of _ u]) (intro conjI u a)
  have y: "\<exists>u v. map_option utterances (speechSynthesis (llm_speak lc text s)) = Some [u]
              \<and> u_voice u = firstOfTiers (llmTiers lc npcId) (voices sy)
              \<and> u_voice u = Some v"
    by (rule exI [of _ u'], rule exI [of _ v]) (intro conjI u' v)
  show ?thesis using x y by (rule conjI)
qed


theorem voice_selection_witness:
  "(\<exists>u. map_option utterances
            (speechSynthesis
               (speak asciiLower (Str (js ''hi''))
                  ((initialChat
                      (Some \<lparr>voices = [\<lparr>v_name = js ''Daniel'', v_lang = js ''en-GB''\<rparr>,
                                       \<lparr>v_name = js ''Samantha'', v_lang = js ''en-US''\<rparr>,
                                       \<lparr>v_name = js ''Google UK English Female'', v_lang = js ''en-GB''\<rparr>],
                              utterances = [], retries = []\<rparr>) None)
                     \<lparr>currentNPC := Some (js ''sooyeon'', None)\<rparr>))) = Some [u]
        \<and> u_voice u = Some \<lparr>v_name = js ''Google UK English Female'', v_lang = js ''en-GB''\<rparr>)
   \<and> (\<exists>u v. map_option utterances
            (speechSynthesis
               (llm_speak asciiLower (Str (js ''hi''))
                  ((initialChat
                      (Some \<lparr>voices = [\<lparr>v_name = js ''Daniel'', v_lang = js ''en-GB''\<rparr>,
                                       \<lparr>v_name = js ''Samantha'', v_lang = js ''en-US''\<rparr>,
                                       \<lparr>v_name = js ''Google UK English Female'', v_lang = js ''en-GB''\<rparr>],
                              utterances = [], retries = []\<rparr>) None)
                     \<lparr>currentNPC := Some (js ''sooyeon'', None)\<rparr>))) = Some [u]
        \<and> u_voice u = Some v)"
proof -
  let ?vs = "[\<lparr>v_name = js ''Daniel'', v_lang = js ''en-GB''\<rparr>,
              \<lparr>v_name = js ''Samantha'', v_lang = js ''en-US''\<rparr>,
              \<lparr>v_name = js ''Google UK English Female'', v_lang = js ''en-GB''\<rparr>]"
  let ?sy = "\<lparr>voices = ?vs, utterances = [], retries = []\<rparr>"
  let ?s = "(initialChat (Some ?sy) None)\<lparr>currentNPC := Some (js ''sooyeon'', None)\<rparr>"
  have h1: "currentNPC ?s = Some (js ''sooyeon'', None)" by (simp add: initialChat_def)
  have h2: "speechSynthesis ?s = Some ?sy" by (simp add: initialChat_def)
  have h3: "voices ?sy \<noteq> []" by simp
  have v: "voices ?sy = ?vs" by simp
  show ?thesis
    using voice_selection [OF h1 h2 h3, of asciiLower "Str (js ''hi'')"]
    unfolding v google_female_for_sooyeon by blast
qed
section \<open>The conversation history only grows\<close>

lemma extends_refl: "extends H H"
  by (simp add: extends_def)

lemma extends_trans: "extends H H' \<Longrightarrow> extends H' H'' \<Longrightarrow> extends H H''"
  unfolding extends_def by (metis append.assoc)

lemma map_le_extends: "H \<subseteq>\<^sub>m H' \<Longrightarrow> extends H H'"
  unfolding extends_def map_le_def by (metis append_Nil2 domI)

lemma extends_push: "H k = Some h \<Longrightarrow> extends H (H(k \<mapsto> h @ t))"
  by (auto simp: extends_def)

lemma getProp_Own: "getProp obj k = Own v \<longleftrightarrow> obj k = Some v"
  by (simp add: getProp_def split: option.splits)

lemma getProp_Absent: "getProp obj k = Absent \<Longrightarrow> obj k = None"
  by (simp add: getProp_def split: option.splits if_splits)

lemma addMessageToUI_keeps [simp]:
  "conversationHistory (snd (addMessageToUI type body s)) = conversationHistory s"
  "currentNPC (snd (addMessageToUI type body s)) = currentNPC s"
  "speechSynthesis (snd (addMessageToUI type body s)) = speechSynthesis s"
  "npcManager (snd (addMessageToUI type body s)) = npcManager s"
  "isLoaded (snd (addMessageToUI type body s)) = isLoaded s"
  "engine (snd (addMessageToUI type body s)) = engine s"
  by (simp_all add: addMessageToUI_def split: option.splits)

lemma removeElem_keeps [simp]:
  "conversationHistory (removeElem el s) = conversationHistory s"
  "currentNPC (removeElem el s) = currentNPC s"
  "speechSynthesis (removeElem el s) = speechSynthesis s"
  "npcManager (removeElem el s) = npcManager s"
  "nextElem (removeElem el s) = nextElem s"
  by (simp_all add: removeElem_def split: option.splits)

lemma speak_keeps [simp]:
  "conversationHistory (speak lc text s) = conversationHistory s"
  "currentNPC (speak lc text s) = currentNPC s"
  "chatMessages (speak lc text s) = chatMessages s"
  by (simp_all add: speak_def Let_def split: option.splits)

lemma llm_speak_keeps [simp]:
  "conversationHistory (llm_speak lc text s) = conversationHistory s"
  "currentNPC (llm_speak lc text s) = currentNPC s"
  "chatMessages (llm_speak lc text s) = chatMessages s"
  by (simp_all add: llm_speak_def Let_def split: option.splits)

lemma showHistory_keeps [simp]:
  "conversationHistory (showHistory h s) = conversationHistory s"
  "currentNPC (showHistory h s) = currentNPC s"
  "speechSynthesis (showHistory h s) = speechSynthesis s"
  unfolding showHistory_def
  by (induction h arbitrary: s) simp_all

lemma notifyManager_keeps [simp]:
  "conversationHistory (snd (notifyManager ident s)) = conversationHistory s"
  "currentNPC (snd (notifyManager ident s)) = currentNPC s"
  by (simp_all add: notifyManager_def split: option.splits)

lemma showPanel_keeps [simp]:
  "conversationHistory (snd (showPanel config s)) = conversationHistory s"
  by (simp add: showPanel_def Let_def split: option.splits)

lemma showMessages_keeps [simp]:
  "conversationHistory (snd (showMessages lc npcId config s)) = conversationHistory s"
  "conversationHistory (snd (llm_showMessages npcId config s)) = conversationHistory s"
  by (simp_all add: showMessages_def llm_showMessages_def Let_def
        split: option.splits lookup.splits sum.splits)

text \<open>\<open>startConversation\<close> adds an empty history for an id that has none and changes no other.\<close>

lemma openConversation_le:
  "conversationHistory s \<subseteq>\<^sub>m conversationHistory (openConversation npcId config s)"
proof (cases "getProp (conversationHistory s) npcId")
  case Absent
  then have "conversationHistory s npcId = None" by (rule getProp_Absent)
  then show ?thesis
    using Absent by (auto simp: openConversation_def Let_def map_le_def)
qed (simp_all add: openConversation_def Let_def)

lemma startConversation_history:
  "conversationHistory (snd (startConversation lc npcId config s))
     = conversationHistory (openConversation npcId config s)"
  "conversationHistory (snd (llm_startConversation npcId config s))
     = conversationHistory (openConversation npcId config s)"
proof -
  let ?o = "openConversation npcId config s"
  have n: "conversationHistory (snd (notifyManager (Some npcId) ?o)) = conversationHistory ?o"
    by simp
  show "conversationHistory (snd (startConversation lc npcId config s)) = conversationHistory ?o"
    unfolding startConversation_def
    by (cases "notifyManager (Some npcId) ?o"; cases "fst (notifyManager (Some npcId) ?o)";
        cases "showPanel config (snd (notifyManager (Some npcId) ?o))";
        cases "fst (showPanel config (snd (notifyManager (Some npcId) ?o)))")
       (use n showPanel_keeps [of config "snd (notifyManager (Some npcId) ?o)"] in
          \<open>auto simp del: notifyManager_keeps showPanel_keeps\<close>)
  show "conversationHistory (snd (llm_startConversation npcId config s)) = conversationHistory ?o"
    unfolding llm_startConversation_def
    by (cases "notifyManager (Some npcId) ?o"; cases "fst (notifyManager (Some npcId) ?o)";
        cases "showPanel config (snd (notifyManager (Some npcId) ?o))";
        cases "fst (showPanel config (snd (notifyManager (Some npcId) ?o)))")
       (use n showPanel_keeps [of config "snd (notifyManager (Some npcId) ?o)"] in
          \<open>auto simp del: notifyManager_keeps showPanel_keeps\<close>)
qed

lemma endConversation_history:
  "conversationHistory (snd (endConversation s)) = conversationHistory s"
  "conversationHistory (snd (llm_endConversation s)) = conversationHistory s"
proof -
  show "conversationHistory (snd (endConversation s)) = conversationHistory s"
    unfolding endConversation_def
    by (cases "notifyManager None s"; cases "fst (notifyManager None s)")
       (use notifyManager_keeps(1) [of None s] in
          \<open>auto simp: Let_def simp del: notifyManager_keeps\<close>)
  show "conversationHistory (snd (llm_endConversation s)) = conversationHistory s"
    unfolding llm_endConversation_def
    by (cases "notifyManager None s"; cases "fst (notifyManager None s)")
       (use notifyManager_keeps(1) [of None s] in
          \<open>auto simp: Let_def simp del: notifyManager_keeps\<close>)
qed

lemma handleEvent_le:
  "conversationHistory s \<subseteq>\<^sub>m conversationHistory (handleEvent lc s ev)"
  "conversationHistory s \<subseteq>\<^sub>m conversationHistory (llm_handleEvent s ev)"
  by (cases ev; simp add: handleEvent_def llm_handleEvent_def startConversation_history
        endConversation_history openConversation_le)+

lemma awaiting_le:
  "conversationHistory s \<subseteq>\<^sub>m conversationHistory (awaiting lc pending s)"
  unfolding awaiting_def
proof (induction pending arbitrary: s)
  case Nil
  then show ?case by simp
next
  case (Cons ev pending)
  show ?case
    using handleEvent_le(1) [of s lc ev] Cons [of "handleEvent lc s ev"]
    by (simp add: map_le_trans)
qed

lemma llm_events_le:
  "conversationHistory s \<subseteq>\<^sub>m conversationHistory (foldl llm_handleEvent s pending)"
proof (induction pending arbitrary: s)
  case Nil
  then show ?case by simp
next
  case (Cons ev pending)
  show ?case
    using handleEvent_le(2) [of s ev] Cons [of "llm_handleEvent s ev"]
    by (simp add: map_le_trans)
qed

lemma thinking_keeps [simp]:
  "conversationHistory (snd (thinking s)) = conversationHistory s"
  "currentNPC (snd (thinking s)) = currentNPC s"
  "speechSynthesis (snd (thinking s)) = speechSynthesis s"
  "isLoaded (snd (thinking s)) = isLoaded s"
  "engine (snd (thinking s)) = engine s"
  by (simp_all add: thinking_def)

lemma recover_keeps [simp]:
  "conversationHistory (recover lc el s) = conversationHistory s"
  "conversationHistory (llm_recover el s) = conversationHistory s"
  by (simp_all add: recover_def llm_recover_def Let_def)

lemma pushHistory_extends:
  "pushHistory entry s = Some s' \<Longrightarrow> extends (conversationHistory s) (conversationHistory s')"
  by (auto simp: pushHistory_def getProp_Own extends_push split: option.splits lookup.splits)

lemma deliver_extends:
  "extends (conversationHistory s) (conversationHistory (deliver lc el response s))"
  "extends (conversationHistory s) (conversationHistory (llm_deliver lc el response s))"
proof -
  let ?s1 = "snd (addMessageToUI TNpc response (removeElem el s))"
  have k: "conversationHistory ?s1 = conversationHistory s" by simp
  have p: "extends (conversationHistory s) (conversationHistory s2)"
    if "pushHistory \<lparr>role = Assistant, content = response\<rparr> ?s1 = Some s2" for s2
    using pushHistory_extends [OF that] unfolding k .
  show "extends (conversationHistory s) (conversationHistory (deliver lc el response s))"
    unfolding deliver_def Let_def
    by (cases "pushHistory \<lparr>role = Assistant, content = response\<rparr> ?s1")
       (simp_all add: extends_refl p)
  show "extends (conversationHistory s) (conversationHistory (llm_deliver lc el response s))"
    unfolding llm_deliver_def Let_def
    by (cases "pushHistory \<lparr>role = Assistant, content = response\<rparr> ?s1")
       (simp_all add: extends_refl p)
qed

lemma generateResponse_extends:
  "extends (conversationHistory s) (conversationHistory (generateResponse lc userMessage pending d s))"
proof -
  let ?s1 = "awaiting lc pending (snd (thinking s))"
  have a: "extends (conversationHistory s) (conversationHistory ?s1)"
    using awaiting_le [of "snd (thinking s)" lc pending] by (simp add: map_le_extends)
  have b: "extends (conversationHistory ?s1)
             (conversationHistory (generateResponse lc userMessage pending d s))"
    unfolding generateResponse_def Let_def
    by (cases "generateSmartResponse lc ?s1 userMessage d")
       (simp_all add: extends_refl deliver_extends)
  show ?thesis using a b by (rule extends_trans)
qed

lemma generateWithLLM_le:
  "conversationHistory s \<subseteq>\<^sub>m conversationHistory (snd (generateWithLLM userMessage completion pending s))"
  by (simp add: generateWithLLM_def Let_def llm_events_le split: sum.splits)

lemma llm_generate_le:
  "conversationHistory s \<subseteq>\<^sub>m conversationHistory (snd (llm_generate lc userMessage completion pending d s))"
  by (simp add: llm_generate_def generateWithLLM_le)

lemma llm_generateResponse_extends:
  "extends (conversationHistory s)
     (conversationHistory (llm_generateResponse lc userMessage completion pending d s))"
proof -
  let ?g = "llm_generate lc userMessage completion pending d (snd (thinking s))"
  have a: "extends (conversationHistory s) (conversationHistory (snd ?g))"
    using llm_generate_le [of "snd (thinking s)" lc userMessage completion pending d]
    by (simp add: map_le_extends)
  have b: "extends (conversationHistory (snd ?g))
             (conversationHistory (llm_generateResponse lc userMessage completion pending d s))"
    unfolding llm_generateResponse_def Let_def
    by (cases "fst ?g") (simp_all add: extends_refl deliver_extends)
  show ?thesis using a b by (rule extends_trans)
qed

lemma sendMessage_extends:
  "extends (conversationHistory s) (conversationHistory (snd (sendMessage lc pending d s)))"
proof -
  have step: "extends (conversationHistory s)
                (conversationHistory (generateResponse lc m pending d s3))"
    if "pushHistory entry s2 = Some s3" "conversationHistory s2 = conversationHistory s"
    for entry s2 s3 m
    using pushHistory_extends [OF that(1)] generateResponse_extends [of s3 lc m pending d]
    unfolding that(2) by (rule extends_trans)
  show ?thesis
    unfolding sendMessage_def Let_def
    by (auto simp: extends_refl step split: option.splits)
qed

lemma llm_sendMessage_extends:
  "extends (conversationHistory s)
     (conversationHistory (snd (llm_sendMessage lc completion pending d s)))"
proof -
  have step: "extends (conversationHistory s)
                (conversationHistory (llm_generateResponse lc m completion pending d s3))"
    if "pushHistory entry s2 = Some s3" "conversationHistory s2 = conversationHistory s"
    for entry s2 s3 m
    using pushHistory_extends [OF that(1)]
      llm_generateResponse_extends [of s3 lc m completion pending d]
    unfolding that(2) by (rule extends_trans)
  show ?thesis
    unfolding llm_sendMessage_def Let_def
    by (auto simp: extends_refl step split: option.splits)
qed

lemma map_le_Some: "H \<subseteq>\<^sub>m H' \<Longrightarrow> H k = Some h \<Longrightarrow> H' k = Some h"
  by (metis domI map_le_def)

lemma extends_Some: "extends H H' \<Longrightarrow> H k = Some h \<Longrightarrow> \<exists>t. H' k = Some (h @ t)"
  by (simp add: extends_def)

text \<open>
  Claim C6: the map of conversation histories only grows.  A history that is stored under an
  id is still stored under it after each operation of the chat system, of either class, with
  the entries it had, in their order, at its start: \<open>startConversation\<close> and \<open>endConversation\<close>
  leave it as it is, \<open>generateResponse\<close> and \<open>sendMessage\<close> leave it as it is or append to it.
  This holds whatever events are handled while a response is awaited and whether or not the
  operation throws.
\<close>

theorem history_only_grows:
  assumes "conversationHistory s k = Some h"
  shows "conversationHistory (snd (startConversation lc npcId config s)) k = Some h
       \<and> conversationHistory (snd (endConversation s)) k = Some h
       \<and> (\<exists>t. conversationHistory (generateResponse lc userMessage pending d s) k = Some (h @ t))
       \<and> (\<exists>t. conversationHistory (snd (sendMessage lc pending d s)) k = Some (h @ t))
       \<and> conversationHistory (snd (llm_startConversation npcId config s)) k = Some h
       \<and> conversationHistory (snd (llm_endConversation s)) k = Some h
       \<and> (\<exists>t. conversationHistory (llm_generateResponse lc userMessage completion pending d s) k
                 = Some (h @ t))
       \<and> (\<exists>t. conversationHistory (snd (llm_sendMessage lc completion pending d s)) k = Some (h @ t))"
proof -
  have o: "conversationHistory (openConversation npcId config s) k = Some h"
    using openConversation_le assms by (rule map_le_Some)
  have a: "conversationHistory (snd (startConversation lc npcId config s)) k = Some h"
    unfolding startConversation_history by (rule o)
  have b: "conversationHistory (snd (endConversation s)) k = Some h"
    unfolding endConversation_history by (rule assms)
  have c: "\<exists>t. conversationHistory (generateResponse lc userMessage pending d s) k = Some (h @ t)"
    using generateResponse_extends assms by (rule extends_Some)
  have e: "\<exists>t. conversationHistory (snd (sendMessage lc pending d s)) k = Some (h @ t)"
    using sendMessage_extends assms by (rule extends_Some)
  have a': "conversationHistory (snd (llm_startConversation npcId config s)) k = Some h"
    unfolding startConversation_history by (rule o)
  have b': "conversationHistory (snd (llm_endConversation s)) k = Some h"
    unfolding endConversation_history by (rule assms)
  have c': "\<exists>t. conversationHistory (llm_generateResponse lc userMessage completion pending d s) k
                 = Some (h @ t)"
    using llm_generateResponse_extends assms by (rule extends_Some)
  have e': "\<exists>t. conversationHistory (snd (llm_sendMessage lc completion pending d s)) k = Some (h @ t)"
    using llm_sendMessage_extends assms by (rule extends_Some)
  show ?thesis by (intro conjI a b c e a' b' c' e')
qed

theorem history_only_grows_witness:
  "conversationHistory
     (snd (startConversation asciiLower (js ''sooyeon'') None
            ((initialChat None None)
               \<lparr>currentNPC := Some (js ''minjun'', None),
                conversationHistory := [js ''minjun'' \<mapsto> [\<lparr>role = User, content = Str (js ''a'')\<rparr>]],
                chatInput := Some (js ''hello'')\<rparr>)))
     (js ''minjun'')
   = Some [\<lparr>role = User, content = Str (js ''a'')\<rparr>]
   \<and> (\<exists>t. conversationHistory
            (snd (sendMessage asciiLower [EvStart (js ''sooyeon'') None] lowDraw
                   ((initialChat None None)
                      \<lparr>currentNPC := Some (js ''minjun'', None),
                       conversationHistory := [js ''minjun'' \<mapsto> [\<lparr>role = User, content = Str (js ''a'')\<rparr>]],
                       chatInput := Some (js ''hello'')\<rparr>)))
            (js ''minjun'')
          = Some ([\<lparr>role = User, content = Str (js ''a'')\<rparr>] @ t))"
proof -
  let ?s = "(initialChat None None)
              \<lparr>currentNPC := Some (js ''minjun'', None),
               conversationHistory := [js ''minjun'' \<mapsto> [\<lparr>role = User, content = Str (js ''a'')\<rparr>]],
               chatInput := Some (js ''hello'')\<rparr>"
  have h: "conversationHistory ?s (js ''minjun'') = Some [\<lparr>role = User, content = Str (js ''a'')\<rparr>]"
    by simp
  note grows = history_only_grows
      [OF h, where lc = asciiLower and npcId = "js ''sooyeon''" and config = None
         and pending = "[EvStart (js ''sooyeon'') None]" and d = lowDraw]
  show ?thesis
    by (intro conjI grows [THEN conjunct1]
          grows [THEN conjunct2, THEN conjunct2, THEN conjunct2, THEN conjunct1])
qed

section \<open>Recovery from a failed generation\<close>

lemma recover_chat:
  "chatMessages (recover lc el s)
     = map_option (\<lambda>els. filter (\<lambda>x. Some (elemId x) \<noteq> el) els
                          @ [\<lparr>elemId = nextElem s, className = TNpc, textContent = Str fallbackText\<rparr>])
         (chatMessages s)"
  by (cases el; cases "chatMessages s")
     (simp_all add: recover_def Let_def addMessageToUI_def removeElem_def)

lemma llm_recover_chat:
  "chatMessages (llm_recover el s)
     = map_option (\<lambda>els. filter (\<lambda>x. Some (elemId x) \<noteq> el) els
                          @ [\<lparr>elemId = nextElem s, className = TSystem, textContent = Str llm_fallbackText\<rparr>])
         (chatMessages s)"
  by (cases el; cases "chatMessages s")
     (simp_all add: llm_recover_def Let_def addMessageToUI_def removeElem_def)

lemma voiceCharacter_text: "u_text (voiceCharacter npcId u) = u_text u"
  by (simp add: voiceCharacter_def)

lemma speak_speech:
  "(case speechSynthesis s of
      None \<Rightarrow> speechSynthesis (speak lc text s) = None
    | Some sy \<Rightarrow>
        if voices sy = [] then
          speechSynthesis (speak lc text s)
            = Some (sy\<lparr>utterances := [], retries := retries sy @ [text]\<rparr>)
        else
          (\<exists>u. u_text u = text
              \<and> speechSynthesis (speak lc text s) = Some (sy\<lparr>utterances := [u]\<rparr>)))"
proof (cases "speechSynthesis s")
  case None
  then show ?thesis by (simp add: speak_def)
next
  case (Some sy)
  show ?thesis
  proof (cases "voices sy = []")
    case True
    then show ?thesis using Some by (simp add: speak_def Let_def)
  next
    case False
    let ?u0 = "\<lparr>u_text = text, u_voice = None, u_rate = 1, u_pitch = 1, u_volume = 1\<rparr>"
    let ?u = "(case currentNPC s of
                 None \<Rightarrow> ?u0
               | Some (npcId, cfg) \<Rightarrow>
                   voiceCharacter npcId (?u0\<lparr>u_voice := selectVoice lc npcId (voices sy)\<rparr>))"
    have t: "u_text ?u = text"
      by (simp add: voiceCharacter_text split: option.splits prod.splits)
    have e: "speechSynthesis (speak lc text s) = Some (sy\<lparr>utterances := [?u]\<rparr>)"
      using Some False by (simp add: speak_def Let_def split: option.splits prod.splits)
    have "\<exists>u. u_text u = text \<and> speechSynthesis (speak lc text s) = Some (sy\<lparr>utterances := [u]\<rparr>)"
      by (rule exI [of _ ?u]) (intro conjI t e)
    then show ?thesis using Some False by simp
  qed
qed

lemma recover_speech:
  "speechSynthesis (recover lc el s)
     = speechSynthesis (speak lc (Str fallbackText) (s\<lparr>chatMessages := chatMessages s\<rparr>))"
  "speechSynthesis (llm_recover el s) = speechSynthesis s"
  by (simp_all add: recover_def llm_recover_def Let_def speak_def split: option.splits)

lemma openConversation_speech [simp]:
  "speechSynthesis (openConversation npcId config s) = speechSynthesis s"
  by (simp add: openConversation_def Let_def split: lookup.splits)

lemma notifyManager_speech [simp]:
  "speechSynthesis (snd (notifyManager ident s)) = speechSynthesis s"
  by (simp add: notifyManager_def split: option.splits)

lemma showPanel_speech [simp]:
  "speechSynthesis (snd (showPanel config s)) = speechSynthesis s"
  by (simp add: showPanel_def Let_def split: option.splits)

lemma llm_showMessages_speech [simp]:
  "speechSynthesis (snd (llm_showMessages npcId config s)) = speechSynthesis s"
  by (simp add: llm_showMessages_def Let_def split: option.splits lookup.splits)

lemma llm_handleEvent_speech:
  "speechSynthesis (llm_handleEvent s ev) = speechSynthesis s"
proof (cases ev)
  case (EvStart npcId config)
  let ?o = "openConversation npcId config s"
  let ?n = "notifyManager (Some npcId) ?o"
  let ?p = "showPanel config (snd ?n)"
  have "speechSynthesis (snd (llm_startConversation npcId config s)) = speechSynthesis s"
    unfolding llm_startConversation_def
    by (cases ?n; cases "fst ?n"; cases ?p; cases "fst ?p")
       (use notifyManager_speech [of "Some npcId" ?o] showPanel_speech [of config "snd ?n"]
          llm_showMessages_speech [of npcId config "snd ?p"] in
          \<open>auto simp del: notifyManager_speech showPanel_speech llm_showMessages_speech\<close>)
  then show ?thesis using EvStart by (simp add: llm_handleEvent_def)
next
  case EvEnd
  have "speechSynthesis (snd (llm_endConversation s)) = speechSynthesis s"
    unfolding llm_endConversation_def
    by (cases "notifyManager None s"; cases "fst (notifyManager None s)")
       (use notifyManager_speech [of None s] in
          \<open>auto simp: Let_def simp del: notifyManager_speech\<close>)
  then show ?thesis using EvEnd by (simp add: llm_handleEvent_def)
qed

lemma llm_events_speech:
  "speechSynthesis (foldl llm_handleEvent s pending) = speechSynthesis s"
  by (induction pending arbitrary: s) (simp_all add: llm_handleEvent_speech)

lemma llm_generate_speech:
  "speechSynthesis (snd (llm_generate lc userMessage completion pending d s)) = speechSynthesis s"
  by (simp add: llm_generate_def generateWithLLM_def Let_def llm_events_speech split: sum.splits)

text \<open>
  Claim C5 says that when the generation of the response throws, \<open>generateResponse\<close> shows and
  speaks the fixed fallback text.  \<open>generateResponse\<close> of the WebLLM class shows its fallback
  text as a system message and does not speak it: with an engine that rejects the request and a
  speech synthesiser that has a voice, nothing is handed to the synthesiser.
\<close>

theorem llm_fallback_not_spoken:
  "fst (llm_generate asciiLower (js ''hello'') rejected [] lowDraw
          (snd (thinking
             ((initialChat (Some \<lparr>voices = [\<lparr>v_name = js ''Daniel'', v_lang = js ''en-GB''\<rparr>],
                                   utterances = [], retries = []\<rparr>) None)
                \<lparr>isLoaded := True, engine := True,
                 currentNPC := Some (js ''minjun'',
                     Some \<lparr>name = js ''Min-jun'', nameKorean = [0xBBFC, 0xC900],
                           systemPrompt = js ''You are Min-jun''\<rparr>),
                 conversationHistory :=
                   [js ''minjun'' \<mapsto> [\<lparr>role = User, content = Str (js ''hello'')\<rparr>]]\<rparr>))))
     = Inl LLMError
   \<and> speechSynthesis
       (llm_generateResponse asciiLower (js ''hello'') rejected [] lowDraw
          ((initialChat (Some \<lparr>voices = [\<lparr>v_name = js ''Daniel'', v_lang = js ''en-GB''\<rparr>],
                                utterances = [], retries = []\<rparr>) None)
             \<lparr>isLoaded := True, engine := True,
              currentNPC := Some (js ''minjun'',
                  Some \<lparr>name = js ''Min-jun'', nameKorean = [0xBBFC, 0xC900],
                        systemPrompt = js ''You are Min-jun''\<rparr>),
              conversationHistory :=
                [js ''minjun'' \<mapsto> [\<lparr>role = User, content = Str (js ''hello'')\<rparr>]]\<rparr>))
     = Some \<lparr>voices = [\<lparr>v_name = js ''Daniel'', v_lang = js ''en-GB''\<rparr>],
             utterances = [], retries = []\<rparr>
   \<and> chatMessages
       (llm_generateResponse asciiLower (js ''hello'') rejected [] lowDraw
          ((initialChat (Some \<lparr>voices = [\<lparr>v_name = js ''Daniel'', v_lang = js ''en-GB''\<rparr>],
                                utterances = [], retries = []\<rparr>) None)
             \<lparr>isLoaded := True, engine := True,
              currentNPC := Some (js ''minjun'',
                  Some \<lparr>name = js ''Min-jun'', nameKorean = [0xBBFC, 0xC900],
                        systemPrompt = js ''You are Min-jun''\<rparr>),
              conversationHistory :=
                [js ''minjun'' \<mapsto> [\<lparr>role = User, content = Str (js ''hello'')\<rparr>]]\<rparr>))
     = Some [\<lparr>elemId = 1, className = TSystem,
              textContent = Str (js ''Sorry, I had trouble responding. Try again?'')\<rparr>]"
  by (simp add: llm_generateResponse_def llm_generate_def generateWithLLM_def buildMessages_def
        getProp_def rejected_def thinking_def addMessageToUI_def removeElem_def llm_recover_def
        llm_fallbackText_def initialChat_def Let_def)

text \<open>
  Claim C5, amended: if the generation of the response throws, \<open>generateResponse\<close> recovers in
  its \<open>catch\<close> block.  The loading indicator is removed and the fixed fallback text of the
  class is shown as the last message.  In \<open>js/ai-chat.js\<close> it is shown as a message of the NPC
  and passed to \<open>speak\<close>: with a synthesiser that has voices it is the one utterance handed
  over, without voices a retry is scheduled, without a synthesiser nothing is spoken.  In the
  WebLLM class it is shown as a system message and nothing is spoken.  In both classes the
  flag \<open>isGenerating\<close> is reset and no assistant entry is appended: the histories are those at
  the throw, and every history stored when \<open>generateResponse\<close> was called has exactly the
  entries it had.
\<close>

theorem generateResponse_recovers:
  assumes "conversationHistory s k = Some h"
  shows "(generateSmartResponse lc (awaiting lc pending (snd (thinking s))) userMessage d = Inl e \<longrightarrow>
            (let atThrow = awaiting lc pending (snd (thinking s));
                 after = generateResponse lc userMessage pending d s
             in conversationHistory after k = Some h
              \<and> conversationHistory after = conversationHistory atThrow
              \<and> chatMessages after
                  = map_option
                      (\<lambda>els. filter (\<lambda>x. Some (elemId x) \<noteq> fst (thinking s)) els
                              @ [\<lparr>elemId = nextElem atThrow, className = TNpc,
                                  textContent = Str fallbackText\<rparr>])
                      (chatMessages atThrow)
              \<and> (case speechSynthesis atThrow of
                    None \<Rightarrow> speechSynthesis after = None
                  | Some sy \<Rightarrow>
                      if voices sy = [] then
                        speechSynthesis after
                          = Some (sy\<lparr>utterances := [], retries := retries sy @ [Str fallbackText]\<rparr>)
                      else
                        (\<exists>u. u_text u = Str fallbackText
                            \<and> speechSynthesis after = Some (sy\<lparr>utterances := [u]\<rparr>)))
              \<and> \<not> isGenerating after))
       \<and> (fst (llm_generate lc userMessage completion pending d (snd (thinking s))) = Inl e' \<longrightarrow>
            (let atThrow = snd (llm_generate lc userMessage completion pending d (snd (thinking s)));
                 after = llm_generateResponse lc userMessage completion pending d s
             in conversationHistory after k = Some h
              \<and> conversationHistory after = conversationHistory atThrow
              \<and> chatMessages after
                  = map_option
                      (\<lambda>els. filter (\<lambda>x. Some (elemId x) \<noteq> fst (thinking s)) els
                              @ [\<lparr>elemId = nextElem atThrow, className = TSystem,
                                  textContent = Str llm_fallbackText\<rparr>])
                      (chatMessages atThrow)
              \<and> speechSynthesis after = speechSynthesis s
              \<and> \<not> isGenerating after))"
proof -
  let ?s1 = "awaiting lc pending (snd (thinking s))"
  let ?g = "llm_generate lc userMessage completion pending d (snd (thinking s))"
  have smart: "conversationHistory (generateResponse lc userMessage pending d s) k = Some h
       \<and> conversationHistory (generateResponse lc userMessage pending d s) = conversationHistory ?s1
       \<and> chatMessages (generateResponse lc userMessage pending d s)
           = map_option
               (\<lambda>els. filter (\<lambda>x. Some (elemId x) \<noteq> fst (thinking s)) els
                       @ [\<lparr>elemId = nextElem ?s1, className = TNpc, textContent = Str fallbackText\<rparr>])
               (chatMessages ?s1)
       \<and> (case speechSynthesis ?s1 of
             None \<Rightarrow> speechSynthesis (generateResponse lc userMessage pending d s) = None
           | Some sy \<Rightarrow>
               if voices sy = [] then
                 speechSynthesis (generateResponse lc userMessage pending d s)
                   = Some (sy\<lparr>utterances := [], retries := retries sy @ [Str fallbackText]\<rparr>)
               else
                 (\<exists>u. u_text u = Str fallbackText
                     \<and> speechSynthesis (generateResponse lc userMessage pending d s)
                         = Some (sy\<lparr>utterances := [u]\<rparr>)))
       \<and> \<not> isGenerating (generateResponse lc userMessage pending d s)"
    if gen: "generateSmartResponse lc ?s1 userMessage d = Inl e"
  proof -
    have r: "generateResponse lc userMessage pending d s
               = (recover lc (fst (thinking s)) ?s1)\<lparr>isGenerating := False\<rparr>"
      by (simp add: generateResponse_def Let_def gen)
    have kept: "conversationHistory ?s1 k = Some h"
      using awaiting_le [of "snd (thinking s)" lc pending] assms
      by (simp add: map_le_Some)
    have sp: "speechSynthesis (generateResponse lc userMessage pending d s)
                = speechSynthesis (speak lc (Str fallbackText) ?s1)"
      unfolding r by (simp add: recover_speech(1) speak_def split: option.splits)
    have a: "conversationHistory (generateResponse lc userMessage pending d s) k = Some h"
      unfolding r using kept by simp
    have b: "conversationHistory (generateResponse lc userMessage pending d s) = conversationHistory ?s1"
      unfolding r by simp
    have c: "chatMessages (generateResponse lc userMessage pending d s)
           = map_option
               (\<lambda>els. filter (\<lambda>x. Some (elemId x) \<noteq> fst (thinking s)) els
                       @ [\<lparr>elemId = nextElem ?s1, className = TNpc, textContent = Str fallbackText\<rparr>])
               (chatMessages ?s1)"
      unfolding r by (simp add: recover_chat)
    have f: "\<not> isGenerating (generateResponse lc userMessage pending d s)"
      unfolding r by simp
    show ?thesis
      unfolding sp
      by (intro conjI a [unfolded sp] b c f speak_speech)
  qed
  have llm: "conversationHistory (llm_generateResponse lc userMessage completion pending d s) k = Some h
       \<and> conversationHistory (llm_generateResponse lc userMessage completion pending d s)
           = conversationHistory (snd ?g)
       \<and> chatMessages (llm_generateResponse lc userMessage completion pending d s)
           = map_option
               (\<lambda>els. filter (\<lambda>x. Some (elemId x) \<noteq> fst (thinking s)) els
                       @ [\<lparr>elemId = nextElem (snd ?g), className = TSystem,
                           textContent = Str llm_fallbackText\<rparr>])
               (chatMessages (snd ?g))
       \<and> speechSynthesis (llm_generateResponse lc userMessage completion pending d s)
           = speechSynthesis s
       \<and> \<not> isGenerating (llm_generateResponse lc userMessage completion pending d s)"
    if gen: "fst ?g = Inl e'"
  proof -
    have r: "llm_generateResponse lc userMessage completion pending d s
               = (llm_recover (fst (thinking s)) (snd ?g))\<lparr>isGenerating := False\<rparr>"
      by (simp add: llm_generateResponse_def Let_def gen)
    have kept: "conversationHistory (snd ?g) k = Some h"
      using llm_generate_le [of "snd (thinking s)" lc userMessage completion pending d] assms
      by (simp add: map_le_Some)
    show ?thesis
      unfolding r using kept
      by (simp add: llm_recover_chat recover_speech(2) llm_generate_speech)
  qed
  show ?thesis
    unfolding Let_def using smart llm by blast
qed

theorem generateResponse_recovers_witness:
  "conversationHistory
     (generateResponse asciiLower (js ''hello'') [EvEnd] lowDraw
        ((initialChat (Some \<lparr>voices = [\<lparr>v_name = js ''Daniel'', v_lang = js ''en-GB''\<rparr>],
                                 utterances = [], retries = []\<rparr>) None)
              \<lparr>isLoaded := True, engine := True,
               currentNPC := Some (js ''minjun'',
                   Some \<lparr>name = js ''Min-jun'', nameKorean = [0xBBFC, 0xC900],
                         systemPrompt = js ''You are Min-jun''\<rparr>),
               conversationHistory :=
                 [js ''minjun'' \<mapsto> [\<lparr>role = User, content = Str (js ''hello'')\<rparr>]]\<rparr>))
     (js ''minjun'')
   = Some [\<lparr>role = User, content = Str (js ''hello'')\<rparr>]
   \<and> chatMessages
       (generateResponse asciiLower (js ''hello'') [EvEnd] lowDraw
          ((initialChat (Some \<lparr>voices = [\<lparr>v_name = js ''Daniel'', v_lang = js ''en-GB''\<rparr>],
                                 utterances = [], retries = []\<rparr>) None)
              \<lparr>isLoaded := True, engine := True,
               currentNPC := Some (js ''minjun'',
                   Some \<lparr>name = js ''Min-jun'', nameKorean = [0xBBFC, 0xC900],
                         systemPrompt = js ''You are Min-jun''\<rparr>),
               conversationHistory :=
                 [js ''minjun'' \<mapsto> [\<lparr>role = User, content = Str (js ''hello'')\<rparr>]]\<rparr>))
     = Some [\<lparr>elemId = 1, className = TNpc,
              textContent = Str (js ''Sorry, I didn't quite catch that. Could you say it again?'')\<rparr>]
   \<and> conversationHistory
       (llm_generateResponse asciiLower (js ''hello'') rejected [EvEnd] lowDraw
          ((initialChat (Some \<lparr>voices = [\<lparr>v_name = js ''Daniel'', v_lang = js ''en-GB''\<rparr>],
                                 utterances = [], retries = []\<rparr>) None)
              \<lparr>isLoaded := True, engine := True,
               currentNPC := Some (js ''minjun'',
                   Some \<lparr>name = js ''Min-jun'', nameKorean = [0xBBFC, 0xC900],
                         systemPrompt = js ''You are Min-jun''\<rparr>),
               conversationHistory :=
                 [js ''minjun'' \<mapsto> [\<lparr>role = User, content = Str (js ''hello'')\<rparr>]]\<rparr>))
       (js ''minjun'')
     = Some [\<lparr>role = User, content = Str (js ''hello'')\<rparr>]
   \<and> speechSynthesis
       (llm_generateResponse asciiLower (js ''hello'') rejected [EvEnd] lowDraw
          ((initialChat (Some \<lparr>voices = [\<lparr>v_name = js ''Daniel'', v_lang = js ''en-GB''\<rparr>],
                                 utterances = [], retries = []\<rparr>) None)
              \<lparr>isLoaded := True, engine := True,
               currentNPC := Some (js ''minjun'',
                   Some \<lparr>name = js ''Min-jun'', nameKorean = [0xBBFC, 0xC900],
                         systemPrompt = js ''You are Min-jun''\<rparr>),
               conversationHistory :=
                 [js ''minjun'' \<mapsto> [\<lparr>role = User, content = Str (js ''hello'')\<rparr>]]\<rparr>))
     = Some \<lparr>voices = [\<lparr>v_name = js ''Daniel'', v_lang = js ''en-GB''\<rparr>],
             utterances = [], retries = []\<rparr>"
proof -
  let ?s = "((initialChat (Some \<lparr>voices = [\<lparr>v_name = js ''Daniel'', v_lang = js ''en-GB''\<rparr>],
                                 utterances = [], retries = []\<rparr>) None)
              \<lparr>isLoaded := True, engine := True,
               currentNPC := Some (js ''minjun'',
                   Some \<lparr>name = js ''Min-jun'', nameKorean = [0xBBFC, 0xC900],
                         systemPrompt = js ''You are Min-jun''\<rparr>),
               conversationHistory :=
                 [js ''minjun'' \<mapsto> [\<lparr>role = User, content = Str (js ''hello'')\<rparr>]]\<rparr>)"
  have h: "conversationHistory ?s (js ''minjun'') = Some [\<lparr>role = User, content = Str (js ''hello'')\<rparr>]"
    by (simp add: initialChat_def)
  have atThrow: "awaiting asciiLower [EvEnd] (snd (thinking ?s))
      = \<lparr>isLoaded = True, engine = True, isGenerating = True, currentNPC = None,
         conversationHistory = [js ''minjun'' \<mapsto> [\<lparr>role = User, content = Str (js ''hello'')\<rparr>]],
         speechSynthesis = Some \<lparr>voices = [\<lparr>v_name = js ''Daniel'', v_lang = js ''en-GB''\<rparr>],
                                  utterances = [], retries = []\<rparr>,
         chatUI = Some True,
         chatMessages = Some [\<lparr>elemId = 0, className = TLoading, textContent = Str (js ''Thinking'')\<rparr>],
         nextElem = 1, chatInput = Some [], currentNPCLabel = Some [], npcManager = None\<rparr>"
    by (simp add: awaiting_def handleEvent_def endConversation_def notifyManager_def thinking_def
          addMessageToUI_def initialChat_def Let_def)
  have loading: "fst (thinking ?s) = Some 0"
    by (simp add: thinking_def addMessageToUI_def initialChat_def)
  have g1: "generateSmartResponse asciiLower (awaiting asciiLower [EvEnd] (snd (thinking ?s)))
              (js ''hello'') lowDraw = Inl TypeError"
    unfolding atThrow by (simp add: generateSmartResponse_def)
  have g2: "fst (llm_generate asciiLower (js ''hello'') rejected [EvEnd] lowDraw (snd (thinking ?s)))
              = Inl LLMError"
    by (simp add: llm_generate_def generateWithLLM_def buildMessages_def getProp_def rejected_def
          thinking_def addMessageToUI_def initialChat_def Let_def)
  note run = generateResponse_recovers
      [OF h, where lc = asciiLower and pending = "[EvEnd]" and userMessage = "js ''hello''"
         and d = lowDraw and e = TypeError and e' = LLMError and completion = rejected,
       unfolded Let_def]
  note smart = run [THEN conjunct1, THEN mp, OF g1]
  note llm = run [THEN conjunct2, THEN mp, OF g2]
  have c: "chatMessages (generateResponse asciiLower (js ''hello'') [EvEnd] lowDraw ?s)
     = Some [\<lparr>elemId = 1, className = TNpc,
              textContent = Str (js ''Sorry, I didn't quite catch that. Could you say it again?'')\<rparr>]"
    unfolding smart [THEN conjunct2, THEN conjunct2, THEN conjunct1] loading atThrow
    by (simp add: fallbackText_def)
  have sp: "speechSynthesis (llm_generateResponse asciiLower (js ''hello'') rejected [EvEnd] lowDraw ?s)
     = Some \<lparr>voices = [\<lparr>v_name = js ''Daniel'', v_lang = js ''en-GB''\<rparr>],
             utterances = [], retries = []\<rparr>"
    unfolding llm [THEN conjunct2, THEN conjunct2, THEN conjunct2, THEN conjunct1]
    by (simp add: initialChat_def)
  show ?thesis
    by (intro conjI smart [THEN conjunct1] c llm [THEN conjunct1] sp)
qed


end
